theory Spec2Isabelle
  imports Main
begin

section \<open>Data model\<close>

text \<open>
  The hooks work on plain JavaScript objects. Each object type becomes a record; an
  optional field becomes an \<open>option\<close>. A \<open>Date\<close> (and every ISO timestamp string that
  the code parses with \<open>new Date\<close> or produces with \<open>toISOString\<close>) is its number of
  milliseconds, read in local wall-clock time with a fixed offset. Field names follow the
  source; \<open>id\<close>, \<open>type\<close> and \<open>title\<close> occur in several object types and carry a suffix.
\<close>

record anime =
  id_anime :: int
  type_anime :: string
  title_anime :: string
  episodes :: "int option"
  chapters :: "int option"
  volumes :: "int option"
  synopsis :: "string option"

datatype notification_type = News | ReminderType | StorageType

record user_notification =
  id_notification :: string
  type_notification :: notification_type
  reminderId :: "string option"
  mediaId_notification :: "int option"
  title_notification :: string
  message :: string
  timestamp :: int
  seen :: bool

record reminder =
  id_reminder :: string
  mediaId :: int
  title :: string
  notes_reminder :: string
  startDateTime :: int
  repeatIntervalDays :: int
  repeatOnDays :: "int list option"
  autoStopOnCompletion :: bool

record read_entry =
  read :: "string list"
  lastRead :: int

text \<open>
  \<open>ListData\<close>, with the fields that the modelled operations read or write. The four
  primary lists are arrays of media ids. \<open>watchedEpisodes\<close> and \<open>readChapters\<close> are
  objects keyed by the media id. The remaining fields of the source object
  (\<open>customEpisodeLinks\<close>, \<open>comments\<close>, \<open>excludedItems\<close>, the layout preferences) are
  carried along untouched by every operation below and are left out.
\<close>

record list_data =
  planToWatch :: "int list"
  currentlyWatching :: "int list"
  planToRead :: "int list"
  currentlyReading :: "int list"
  watchedEpisodes :: "int \<rightharpoonup> string list"
  readChapters :: "int \<rightharpoonup> read_entry"
  notifications :: "user_notification list"
  readActivityIds :: "int list"
  reminders :: "reminder list"
  hiddenGenres :: "string list"
  sensitiveContentUnlocked :: bool
  storageQuota :: nat

record local_profile =
  username :: string
  avatar_url :: string

record shared_data_config =
  url :: "string option"
  lastSync :: "int option"
  lastSize :: "int option"
  lastEtag :: "string option"

text \<open>
  The snapshot document of export, import and sync: \<open>profile\<close> and \<open>lists\<close> are
  required by the readers, \<open>layout\<close> and \<open>tracked\<close> are optional. Layout items are opaque
  to this part of the program.
\<close>

record snapshot =
  profile :: "local_profile option"
  lists :: "list_data option"
  layout :: "string list option"
  tracked :: "anime list option"

subsection \<open>The key-value store (\<open>idb-keyval\<close>), restricted to the five keys in use\<close>

record store =
  IDB_PROFILE_KEY :: "local_profile option"
  IDB_LIST_DATA_KEY :: "list_data option"
  IDB_LAYOUT_CONFIG_KEY :: "string list option"
  IDB_TRACKED_MEDIA_KEY :: "anime list option"
  IDB_SHARED_DATA_KEY :: "shared_data_config option"

subsection \<open>What the hook sees of the outside world\<close>

datatype storage_api = Unavailable | Estimate "nat option"

record fetch_request =
  target :: string
  headers :: "(string \<times> string) list"

datatype fetch_result =
    NetworkError string
  | Response nat string "string option" "int option" "snapshot option"

record genre_entry =
  name :: string
  type_genre :: string

text \<open>
  \<open>SENSITIVE_GENRES\<close> (\<open>lib/config\<close>) and \<open>genres_list\<close> (\<open>i18n\<close>) are constants of
  modules outside the modelled files, so they are parameters. \<open>storage_estimate\<close> is
  \<open>navigator.storage.estimate\<close>; \<open>now\<close> is the clock, read once per operation;
  \<open>uuidv4 k\<close> is the \<open>k\<close>-th identifier drawn during the operation; \<open>fetch\<close> is the
  network.
\<close>

record env =
  SENSITIVE_GENRES :: "string list"
  genres_list :: "genre_entry list"
  storage_estimate :: storage_api
  now :: int
  uuidv4 :: "nat \<Rightarrow> string"
  fetch :: "fetch_request \<Rightarrow> fetch_result"

datatype toast_variant = Default | Destructive

datatype effect =
    Toast toast_variant string string
  | Log string string
  | Fetch fetch_request
  | ReloadScheduled

text \<open>
  The state of \<open>useAuthCore\<close>: the store, the React state variables, and the trace of
  effects visible from outside (toasts, log lines, requests, a scheduled reload).
\<close>

record state =
  idb :: store
  listData :: list_data
  trackedMedia :: "anime list"
  sharedDataConfig :: shared_data_config
  isSyncing :: bool
  effects :: "effect list"

definition DEFAULT_STORAGE_QUOTA :: nat where
  "DEFAULT_STORAGE_QUOTA = 1 * 1024 * 1024 * 1024"

definition initialListData :: "env \<Rightarrow> list_data" where
  "initialListData e =
     \<lparr> planToWatch = [], currentlyWatching = [], planToRead = [], currentlyReading = [],
       watchedEpisodes = Map.empty, readChapters = Map.empty, notifications = [],
       readActivityIds = [], reminders = [], hiddenGenres = SENSITIVE_GENRES e,
       sensitiveContentUnlocked = False, storageQuota = DEFAULT_STORAGE_QUOTA \<rparr>"

section \<open>Storage quota guard and the mutation funnel\<close>

fun digits :: "nat \<Rightarrow> string" where
  "digits n =
     (if n < 10 then [char_of (48 + n)] else digits (n div 10) @ [char_of (48 + n mod 10)])"

definition show_int :: "int \<Rightarrow> string" where
  "show_int i = (if i < 0 then CHR ''-'' # digits (nat (- i)) else digits (nat i))"

definition set_list_data :: "list_data \<Rightarrow> state \<Rightarrow> state" where
  "set_list_data d st = st \<lparr> idb := (idb st) \<lparr> IDB_LIST_DATA_KEY := Some d \<rparr> \<rparr>"

definition storageNotification :: "env \<Rightarrow> user_notification" where
  "storageNotification e =
     \<lparr> id_notification = ''storage-warning-'' @ show_int (now e),
       type_notification = StorageType,
       reminderId = None,
       mediaId_notification = None,
       title_notification = ''Storage Limit Reached'',
       message = ''Increase your storage quota in settings to save new data.'',
       timestamp = now e,
       seen = False \<rparr>"

text \<open>
  \<open>checkStorageAndNotify\<close> returns whether the caller may write. \<open>x || d\<close> on a number
  takes \<open>d\<close> for \<open>0\<close> and for an absent value.
\<close>

definition checkStorageAndNotify :: "env \<Rightarrow> list_data \<Rightarrow> state \<Rightarrow> bool \<times> state" where
  "checkStorageAndNotify e updatedData st =
     (case storage_estimate e of
        Unavailable \<Rightarrow> (True, st)
      | Estimate est \<Rightarrow>
          (let quota = (if storageQuota updatedData = 0 then DEFAULT_STORAGE_QUOTA
                        else storageQuota updatedData);
               usage = (case est of None \<Rightarrow> 0 | Some u \<Rightarrow> u)
           in if usage > quota
              then
                (let st1 = st \<lparr> effects := effects st @
                       [Toast Destructive ''Storage Limit Reached''
                          ''New data cannot be saved. Please increase storage quota in settings.''] \<rparr>;
                     notifications' = notifications updatedData @ [storageNotification e]
                 in (False, set_list_data (updatedData \<lparr> notifications := notifications' \<rparr>) st1))
              else (True, st)))"

text \<open>
  \<open>updateAndPersistListData\<close>. The argument is the transformer already merged over the
  current data (\<open>{ ...currentData, ...getNewData(currentData) }\<close>). The React state is
  replaced at once; the persist that the source starts with \<open>then\<close> is run to its end
  before the next operation.
\<close>

definition updateAndPersistListData :: "env \<Rightarrow> (list_data \<Rightarrow> list_data) \<Rightarrow> state \<Rightarrow> state" where
  "updateAndPersistListData e getNewData st =
     (let updatedData = getNewData (listData st);
          st1 = st \<lparr> listData := updatedData \<rparr>;
          (canWrite, st2) = checkStorageAndNotify e updatedData st1
      in if canWrite then set_list_data updatedData st2
         else st2 \<lparr> effects := effects st2 @
                [Log ''Write operation blocked due to storage quota.'' ''warn''] \<rparr>)"

section \<open>List membership\<close>

datatype list_name = PlanToWatch | CurrentlyWatching | PlanToRead | CurrentlyReading

fun get_list :: "list_name \<Rightarrow> list_data \<Rightarrow> int list" where
  "get_list PlanToWatch d = planToWatch d"
| "get_list CurrentlyWatching d = currentlyWatching d"
| "get_list PlanToRead d = planToRead d"
| "get_list CurrentlyReading d = currentlyReading d"

fun put_list :: "list_name \<Rightarrow> int list \<Rightarrow> list_data \<Rightarrow> list_data" where
  "put_list PlanToWatch xs d = d \<lparr> planToWatch := xs \<rparr>"
| "put_list CurrentlyWatching xs d = d \<lparr> currentlyWatching := xs \<rparr>"
| "put_list PlanToRead xs d = d \<lparr> planToRead := xs \<rparr>"
| "put_list CurrentlyReading xs d = d \<lparr> currentlyReading := xs \<rparr>"

text \<open>The transformer that \<open>handleToggleListMembership\<close> hands to the funnel.\<close>

definition toggle_membership :: "int \<Rightarrow> list_name \<Rightarrow> list_data \<Rightarrow> list_data" where
  "toggle_membership mid listName currentData =
     (let list = get_list listName currentData;
          newIsInList = (mid \<in> set list);
          newList = (if newIsInList then filter (\<lambda>i. i \<noteq> mid) list else list @ [mid])
      in put_list listName newList currentData)"

definition handleToggleListMembership :: "env \<Rightarrow> anime \<Rightarrow> list_name \<Rightarrow> state \<Rightarrow> state" where
  "handleToggleListMembership e media listName st =
     updateAndPersistListData e (toggle_membership (id_anime media) listName) st"

definition isInAnyList :: "list_data \<Rightarrow> int \<Rightarrow> bool" where
  "isInAnyList freshListData mid =
     list_ex (\<lambda>l. mid \<in> set (get_list l freshListData))
       [PlanToWatch, CurrentlyWatching, PlanToRead, CurrentlyReading]"

definition set_tracked :: "anime list \<Rightarrow> state \<Rightarrow> state" where
  "set_tracked newTracked st =
     st \<lparr> idb := (idb st) \<lparr> IDB_TRACKED_MEDIA_KEY := Some newTracked \<rparr>,
          trackedMedia := newTracked \<rparr>"

definition get_tracked :: "state \<Rightarrow> anime list" where
  "get_tracked st = (case IDB_TRACKED_MEDIA_KEY (idb st) of None \<Rightarrow> [] | Some t \<Rightarrow> t)"

text \<open>
  The callback that \<open>handleToggleListMembership\<close> schedules 100 ms after the toggle: it
  reads the tracked cache and the list data back from the store.
\<close>

definition reconcile_timer :: "env \<Rightarrow> anime \<Rightarrow> state \<Rightarrow> state" where
  "reconcile_timer e media st =
     (let mediaWithoutSynopsis = media \<lparr> synopsis := None \<rparr>;
          currentTracked = get_tracked st;
          freshListData = (case IDB_LIST_DATA_KEY (idb st) of
                             None \<Rightarrow> initialListData e | Some d \<Rightarrow> d)
      in if isInAnyList freshListData (id_anime media)
         then (if \<not> list_ex (\<lambda>item. id_anime item = id_anime media) currentTracked
               then set_tracked (currentTracked @ [mediaWithoutSynopsis]) st
               else st)
         else set_tracked (filter (\<lambda>item. id_anime item \<noteq> id_anime media) currentTracked) st)"

definition togglePlanToWatch :: "env \<Rightarrow> anime \<Rightarrow> state \<Rightarrow> state" where
  "togglePlanToWatch e a st = handleToggleListMembership e a PlanToWatch st"

definition togglePlanToRead :: "env \<Rightarrow> anime \<Rightarrow> state \<Rightarrow> state" where
  "togglePlanToRead e m st = handleToggleListMembership e m PlanToRead st"

text \<open>The transformers of \<open>toggleCurrentlyWatching\<close> and \<open>toggleCurrentlyReading\<close>.\<close>

definition currently_watching_update :: "int \<Rightarrow> list_data \<Rightarrow> list_data" where
  "currently_watching_update mid d =
     d \<lparr> planToWatch := filter (\<lambda>i. i \<noteq> mid) (planToWatch d),
         currentlyWatching :=
           (if mid \<in> set (currentlyWatching d)
            then filter (\<lambda>i. i \<noteq> mid) (currentlyWatching d)
            else currentlyWatching d @ [mid]) \<rparr>"

definition currently_reading_update :: "int \<Rightarrow> list_data \<Rightarrow> list_data" where
  "currently_reading_update mid d =
     d \<lparr> planToRead := filter (\<lambda>i. i \<noteq> mid) (planToRead d),
         currentlyReading :=
           (if mid \<in> set (currentlyReading d)
            then filter (\<lambda>i. i \<noteq> mid) (currentlyReading d)
            else currentlyReading d @ [mid]) \<rparr>"

definition toggleCurrentlyWatching :: "env \<Rightarrow> anime \<Rightarrow> state \<Rightarrow> state" where
  "toggleCurrentlyWatching e a st =
     updateAndPersistListData e (currently_watching_update (id_anime a)) st"

definition toggleCurrentlyReading :: "env \<Rightarrow> anime \<Rightarrow> state \<Rightarrow> state" where
  "toggleCurrentlyReading e m st =
     updateAndPersistListData e (currently_reading_update (id_anime m)) st"

text \<open>
  The callback that both schedule 100 ms later: it only ever adds the item to the
  tracked cache.
\<close>

definition track_timer :: "anime \<Rightarrow> state \<Rightarrow> state" where
  "track_timer media st =
     (let mediaWithoutSynopsis = media \<lparr> synopsis := None \<rparr>;
          currentTracked = get_tracked st
      in if \<not> list_ex (\<lambda>item. id_anime item = id_anime media) currentTracked
         then set_tracked (currentTracked @ [mediaWithoutSynopsis]) st
         else st)"

section \<open>Reminders\<close>

subsection \<open>Dates\<close>

text \<open>
  \<open>Date\<close> methods and the \<open>date-fns\<close> functions that the code calls, on milliseconds of
  local time without daylight-saving changes. Day \<open>0\<close> of the epoch was a Thursday
  (weekday index \<open>4\<close>, Sunday being \<open>0\<close>).
\<close>

definition MS_PER_DAY :: int where
  "MS_PER_DAY = 1000 * 60 * 60 * 24"

definition getDay :: "int \<Rightarrow> int" where
  "getDay t = (t div MS_PER_DAY + 4) mod 7"

definition getHours :: "int \<Rightarrow> int" where
  "getHours t = (t mod MS_PER_DAY) div 3600000"

definition getMinutes :: "int \<Rightarrow> int" where
  "getMinutes t = (t mod 3600000) div 60000"

definition addDays :: "int \<Rightarrow> int \<Rightarrow> int" where
  "addDays t amount = t + amount * MS_PER_DAY"

definition nextDay :: "int \<Rightarrow> int \<Rightarrow> int" where
  "nextDay t day =
     (let delta = day - getDay t;
          delta' = (if delta \<le> 0 then delta + 7 else delta)
      in addDays t delta')"

text \<open>\<open>setHours(h, m, 0, 0)\<close>: same calendar day, the given time of day.\<close>

definition setHours :: "int \<Rightarrow> int \<Rightarrow> int \<Rightarrow> int" where
  "setHours t h m = t - t mod MS_PER_DAY + h * 3600000 + m * 60000"

definition isPast :: "int \<Rightarrow> int \<Rightarrow> bool" where
  "isPast clock d = (d < clock)"

text \<open>
  The remainder operator of JavaScript on integers: the sign follows the dividend, and
  a zero divisor gives \<open>NaN\<close> (here \<open>None\<close>), which equals nothing.
\<close>

definition js_rem :: "int \<Rightarrow> int \<Rightarrow> int option" where
  "js_rem a b =
     (if b = 0 then None
      else if a < 0 then Some (- ((- a) mod \<bar>b\<bar>))
      else Some (a mod \<bar>b\<bar>))"

subsection \<open>\<open>isReminderDue\<close> (\<open>lib/anilist/requests.ts\<close>)\<close>

text \<open>
  \<open>repeatOnDays\<close> is optional; both tests of the source
  (\<open>!reminder.repeatOnDays || reminder.repeatOnDays.length === 0\<close> and its opposite) read
  an absent array like an empty one.
\<close>

definition weekly_days :: "reminder \<Rightarrow> int list" where
  "weekly_days r = (case repeatOnDays r of None \<Rightarrow> [] | Some ds \<Rightarrow> ds)"

definition no_weekly_days :: "reminder \<Rightarrow> bool" where
  "no_weekly_days r = (length (weekly_days r) = 0)"

definition nextOccurrence :: "int \<Rightarrow> int \<Rightarrow> int \<Rightarrow> int" where
  "nextOccurrence clock startDate day =
     setHours (nextDay clock day) (getHours startDate) (getMinutes startDate)"

text \<open>The \<open>for\<close> loop over the sorted weekdays; it leaves at the first future occurrence.\<close>

fun weekly_loop :: "int \<Rightarrow> int \<Rightarrow> int list \<Rightarrow> bool" where
  "weekly_loop clock startDate [] = True"
| "weekly_loop clock startDate (day # days) =
     (if \<not> isPast clock (nextOccurrence clock startDate day) then False
      else weekly_loop clock startDate days)"

definition daysSinceStart :: "int \<Rightarrow> reminder \<Rightarrow> int" where
  "daysSinceStart clock r = (clock - startDateTime r) div MS_PER_DAY"

definition isReminderDue :: "int \<Rightarrow> reminder \<Rightarrow> bool" where
  "isReminderDue clock r =
     (let startDate = startDateTime r
      in if repeatIntervalDays r = 0 \<and> no_weekly_days r then isPast clock startDate
         else if \<not> no_weekly_days r
         then weekly_loop clock startDate (sort (weekly_days r))
         else if isPast clock startDate
         then (js_rem (daysSinceStart clock r) (repeatIntervalDays r) = Some 0
               \<or> daysSinceStart clock r > 0)
         else False)"

subsection \<open>The scheduler pass (\<open>checkRemindersAndCreateNotifications\<close>)\<close>

definition truthy_num :: "int option \<Rightarrow> bool" where
  "truthy_num v = (case v of None \<Rightarrow> False | Some n \<Rightarrow> n \<noteq> 0)"

definition isMediaCompleted :: "state \<Rightarrow> reminder \<Rightarrow> bool" where
  "isMediaCompleted st r =
     (if \<not> autoStopOnCompletion r then False
      else case find (\<lambda>m. id_anime m = mediaId r) (trackedMedia st) of
        None \<Rightarrow> False
      | Some media \<Rightarrow>
          (let totalUnits =
                 (if type_anime media = ''MANGA''
                  then (if truthy_num (chapters media) then chapters media else volumes media)
                  else episodes media)
           in case totalUnits of
                None \<Rightarrow> False
              | Some units \<Rightarrow>
                  if units = 0 then False
                  else if type_anime media = ''MANGA''
                  then int (case readChapters (listData st) (id_anime media) of
                              None \<Rightarrow> 0 | Some c \<Rightarrow> length (read c)) \<ge> units
                  else int (case watchedEpisodes (listData st) (id_anime media) of
                              None \<Rightarrow> 0 | Some w \<Rightarrow> length w) \<ge> units))"

definition existingReminderNotifications :: "state \<Rightarrow> string option set" where
  "existingReminderNotifications st =
     set (map reminderId
       (filter (\<lambda>n. type_notification n = ReminderType) (notifications (listData st))))"

definition reminderNotification :: "env \<Rightarrow> nat \<Rightarrow> reminder \<Rightarrow> user_notification" where
  "reminderNotification e k r =
     \<lparr> id_notification = uuidv4 e k,
       type_notification = ReminderType,
       reminderId = Some (id_reminder r),
       mediaId_notification = Some (mediaId r),
       title_notification = title r,
       message = notes_reminder r,
       timestamp = now e,
       seen = False \<rparr>"

text \<open>
  The \<open>forEach\<close> over the reminders, with \<open>newNotifications\<close> as accumulator. The test is
  on \<open>startDateTime\<close> alone; \<open>isReminderDue\<close> is not called here.
\<close>

fun reminders_forEach ::
  "env \<Rightarrow> state \<Rightarrow> reminder list \<Rightarrow> user_notification list \<Rightarrow> user_notification list" where
  "reminders_forEach e st [] newNotifications = newNotifications"
| "reminders_forEach e st (r # rs) newNotifications =
     (if isPast (now e) (startDateTime r)
         \<and> Some (id_reminder r) \<notin> existingReminderNotifications st
      then (if isMediaCompleted st r then reminders_forEach e st rs newNotifications
            else reminders_forEach e st rs
                   (newNotifications @ [reminderNotification e (length newNotifications) r]))
      else reminders_forEach e st rs newNotifications)"

definition checkRemindersAndCreateNotifications :: "env \<Rightarrow> state \<Rightarrow> state" where
  "checkRemindersAndCreateNotifications e st =
     (let newNotifications = reminders_forEach e st (reminders (listData st)) []
      in if length newNotifications > 0
         then updateAndPersistListData e
                (\<lambda>currentData. currentData
                   \<lparr> notifications := notifications currentData @ newNotifications \<rparr>) st
         else st)"

text \<open>Successive passes of the 10 s interval timer, each with its own clock reading.\<close>

fun scheduler_passes :: "env list \<Rightarrow> state \<Rightarrow> state" where
  "scheduler_passes [] st = st"
| "scheduler_passes (e # es) st =
     scheduler_passes es (checkRemindersAndCreateNotifications e st)"

definition reminder_notifications_for :: "string \<Rightarrow> state \<Rightarrow> user_notification list" where
  "reminder_notifications_for rid st =
     filter (\<lambda>n. type_notification n = ReminderType \<and> reminderId n = Some rid)
       (notifications (listData st))"

section \<open>Hidden genres (\<open>getHiddenGenres\<close>)\<close>

text \<open>\<open>Array.from(new Set(xs))\<close>: the first occurrence of each element, in order.\<close>

fun from_set :: "string list \<Rightarrow> string list \<Rightarrow> string list" where
  "from_set seen_so_far [] = []"
| "from_set seen_so_far (x # xs) =
     (if x \<in> set seen_so_far then from_set seen_so_far xs
      else x # from_set (x # seen_so_far) xs)"

definition finalHidden :: "env \<Rightarrow> list_data option \<Rightarrow> string list" where
  "finalHidden e data =
     (case data of
        None \<Rightarrow> SENSITIVE_GENRES e
      | Some d \<Rightarrow>
          (let userHidden = hiddenGenres d
           in if sensitiveContentUnlocked d then userHidden
              else from_set [] (SENSITIVE_GENRES e @ userHidden)))"

definition type_of_name :: "env \<Rightarrow> string \<Rightarrow> string option" where
  "type_of_name e n = map_option type_genre (find (\<lambda>g. name g = n) (genres_list e))"

text \<open>
  The result is the pair \<open>(genres, tags)\<close> that \<open>fetchAniListPaginated\<close> passes on as
  \<open>genre_not_in\<close> and \<open>tag_not_in\<close>. With no list data given, the stored one is read.
\<close>

definition getHiddenGenres :: "env \<Rightarrow> list_data option \<Rightarrow> store \<Rightarrow> string list \<times> string list" where
  "getHiddenGenres e listData_arg s =
     (let data = (case listData_arg of None \<Rightarrow> IDB_LIST_DATA_KEY s | Some d \<Rightarrow> Some d);
          allGenreNames = set (map name (genres_list e));
          validHidden = filter (\<lambda>g. g \<in> allGenreNames) (finalHidden e data);
          hidden_genres = filter (\<lambda>n. type_of_name e n = Some ''genre'') validHidden;
          hidden_tags = filter (\<lambda>n. type_of_name e n = Some ''tag'') validHidden
      in (hidden_genres, hidden_tags))"

definition effective_hidden :: "env \<Rightarrow> list_data \<Rightarrow> store \<Rightarrow> string set" where
  "effective_hidden e d s =
     set (fst (getHiddenGenres e (Some d) s)) \<union> set (snd (getHiddenGenres e (Some d) s))"

section \<open>Shared-data sync\<close>

definition disconnectFromSharedData :: "bool \<Rightarrow> state \<Rightarrow> state" where
  "disconnectFromSharedData showToast st =
     (let newConfig = \<lparr> url = None, lastSync = None, lastSize = None, lastEtag = None \<rparr>;
          st1 = st \<lparr> sharedDataConfig := newConfig,
                     idb := (idb st) \<lparr> IDB_SHARED_DATA_KEY := Some newConfig \<rparr> \<rparr>
      in if showToast then st1 \<lparr> effects := effects st1 @ [Toast Default ''Disconnected'' []] \<rparr>
         else st1)"

definition response_ok :: "fetch_result \<Rightarrow> bool" where
  "response_ok r = (case r of NetworkError _ \<Rightarrow> False | Response st _ _ _ _ \<Rightarrow> 200 \<le> st \<and> st \<le> 299)"

text \<open>The \<open>catch\<close> block of \<open>syncSharedData\<close>.\<close>

definition sync_catch :: "string \<Rightarrow> state \<Rightarrow> state" where
  "sync_catch msg st =
     disconnectFromSharedData False
       (st \<lparr> effects := effects st @ [Toast Destructive ''Sync Failed'' msg] \<rparr>)"

text \<open>
  The branch for an \<open>ok\<close> response, given its \<open>etag\<close> and \<open>content-length\<close> headers and its
  body. A body that is not JSON makes \<open>response.json()\<close> throw; a fixed text stands for
  the browser's message. The request goes to the relay with the stored URL rewritten to
  its raw form; the model keeps the stored URL as the request's target.
\<close>

definition sync_ok ::
  "env \<Rightarrow> shared_data_config \<Rightarrow> string option \<Rightarrow> int option \<Rightarrow> snapshot option
   \<Rightarrow> state \<Rightarrow> state" where
  "sync_ok e currentConfig etag_header length_header data_opt st =
     (case data_opt of
        None \<Rightarrow> sync_catch ''Unexpected token in JSON'' st
      | Some data \<Rightarrow>
          (if profile data = None \<or> lists data = None
           then sync_catch ''Invalid data structure.'' st
           else
             (let s1 = (idb st) \<lparr> IDB_PROFILE_KEY := profile data,
                                   IDB_LIST_DATA_KEY := lists data \<rparr>;
                  s2 = (case layout data of None \<Rightarrow> s1
                        | Some l \<Rightarrow> s1 \<lparr> IDB_LAYOUT_CONFIG_KEY := Some l \<rparr>);
                  s3 = (case tracked data of None \<Rightarrow> s2
                        | Some t \<Rightarrow> s2 \<lparr> IDB_TRACKED_MEDIA_KEY := Some t \<rparr>);
                  newConfig = currentConfig
                    \<lparr> lastSync := Some (now e), lastEtag := etag_header,
                      lastSize := Some (case length_header of
                                          None \<Rightarrow> 0 | Some n \<Rightarrow> n) \<rparr>
              in st \<lparr> idb := s3 \<lparr> IDB_SHARED_DATA_KEY := Some newConfig \<rparr>,
                      sharedDataConfig := newConfig,
                      effects := effects st @
                        [Toast Default ''Sync Successful'' ''Reloading app.'',
                         ReloadScheduled] \<rparr>)))"

definition sync_headers :: "bool \<Rightarrow> shared_data_config \<Rightarrow> (string \<times> string) list" where
  "sync_headers isManualTrigger currentConfig =
     (if isManualTrigger then []
      else case lastEtag currentConfig of
        None \<Rightarrow> []
      | Some tag \<Rightarrow> if tag = [] then [] else [(''If-None-Match'', tag)])"

text \<open>\<open>!currentConfig?.url\<close> holds for an absent and for an empty URL.\<close>

definition sync_target :: "shared_data_config \<Rightarrow> string" where
  "sync_target c = (case url c of None \<Rightarrow> [] | Some u \<Rightarrow> u)"

definition sync_request :: "bool \<Rightarrow> shared_data_config \<Rightarrow> fetch_request" where
  "sync_request isManualTrigger currentConfig =
     \<lparr> target = sync_target currentConfig,
       headers = sync_headers isManualTrigger currentConfig \<rparr>"

text \<open>The \<open>try\<close> block: one request, then the three branches on the response.\<close>

definition sync_try :: "env \<Rightarrow> bool \<Rightarrow> shared_data_config \<Rightarrow> state \<Rightarrow> state" where
  "sync_try e isManualTrigger currentConfig st =
     (let request = sync_request isManualTrigger currentConfig;
          st1 = st \<lparr> effects := effects st @ [Fetch request] \<rparr>;
          response = fetch e request
      in case response of
           NetworkError msg \<Rightarrow> sync_catch msg st1
         | Response code reason etag_header length_header data_opt \<Rightarrow>
             if code = 304
             then (if isManualTrigger
                   then st1 \<lparr> effects := effects st1 @
                          [Toast Default ''Already Up-to-Date'' []] \<rparr>
                   else st1)
             else if response_ok response
             then sync_ok e currentConfig etag_header length_header data_opt st1
             else sync_catch (''Fetch failed: '' @ reason) st1)"

definition syncSharedData :: "env \<Rightarrow> bool \<Rightarrow> state \<Rightarrow> state" where
  "syncSharedData e isManualTrigger st =
     (case IDB_SHARED_DATA_KEY (idb st) of
        None \<Rightarrow> st
      | Some currentConfig \<Rightarrow>
          if sync_target currentConfig = [] then st
          else if isSyncing st then st
          else (sync_try e isManualTrigger currentConfig (st \<lparr> isSyncing := True \<rparr>))
                 \<lparr> isSyncing := False \<rparr>)"

section \<open>Auxiliary notions for the statements\<close>

text \<open>The condition under which \<open>checkStorageAndNotify\<close> takes its veto branch.\<close>

definition quota_exceeded :: "env \<Rightarrow> list_data \<Rightarrow> bool" where
  "quota_exceeded e d =
     (case storage_estimate e of
        Unavailable \<Rightarrow> False
      | Estimate est \<Rightarrow>
          (case est of None \<Rightarrow> 0 | Some u \<Rightarrow> u)
            > (if storageQuota d = 0 then DEFAULT_STORAGE_QUOTA else storageQuota d))"

text \<open>
  A name that \<open>genres_list\<close> knows, its first entry of that name being a genre or a tag.
\<close>

definition listed :: "env \<Rightarrow> string \<Rightarrow> bool" where
  "listed e n = (type_of_name e n = Some ''genre'' \<or> type_of_name e n = Some ''tag'')"

text \<open>
  Notions for the statements about \<open>syncSharedData\<close>: a call that gets as far as the
  request; the outcomes of the request that end in the \<open>catch\<close> block (no response, a
  status that is neither 304 nor \<open>ok\<close>, an \<open>ok\<close> response whose body is not JSON or lacks
  \<open>profile\<close> or \<open>lists\<close>) with the message shown; the snapshot of an \<open>ok\<close> response that
  has both; a 304 response; the four stores that a sync overwrites.
\<close>

definition sync_attempt :: "state \<Rightarrow> shared_data_config \<Rightarrow> bool" where
  "sync_attempt st c =
     (IDB_SHARED_DATA_KEY (idb st) = Some c \<and> sync_target c \<noteq> [] \<and> \<not> isSyncing st)"

definition sync_failed :: "fetch_result \<Rightarrow> bool" where
  "sync_failed r =
     (case r of
        NetworkError msg \<Rightarrow> True
      | Response code text tag len b \<Rightarrow>
          code \<noteq> 304
          \<and> (\<not> response_ok r
             \<or> (case b of None \<Rightarrow> True
                 | Some data \<Rightarrow> profile data = None \<or> lists data = None)))"

definition complete_snapshot :: "fetch_result \<Rightarrow> snapshot option" where
  "complete_snapshot r =
     (case r of
        NetworkError msg \<Rightarrow> None
      | Response code text tag len b \<Rightarrow>
          if code \<noteq> 304 \<and> response_ok r
          then (case b of None \<Rightarrow> None
                | Some data \<Rightarrow>
                    if profile data \<noteq> None \<and> lists data \<noteq> None then Some data else None)
          else None)"

definition not_modified :: "fetch_result \<Rightarrow> bool" where
  "not_modified r =
     (case r of NetworkError msg \<Rightarrow> False | Response code text tag len b \<Rightarrow> code = 304)"

definition disconnected :: shared_data_config where
  "disconnected = \<lparr> url = None, lastSync = None, lastSize = None, lastEtag = None \<rparr>"

definition local_stores ::
  "state \<Rightarrow> local_profile option \<times> list_data option \<times> string list option \<times> anime list option" where
  "local_stores st =
     (IDB_PROFILE_KEY (idb st), IDB_LIST_DATA_KEY (idb st), IDB_LAYOUT_CONFIG_KEY (idb st),
      IDB_TRACKED_MEDIA_KEY (idb st))"

definition failure_message :: "fetch_result \<Rightarrow> string" where
  "failure_message r =
     (case r of
        NetworkError msg \<Rightarrow> msg
      | Response code text tag len b \<Rightarrow>
          if response_ok r
          then (case b of None \<Rightarrow> ''Unexpected token in JSON''
                | Some data \<Rightarrow> ''Invalid data structure.'')
          else ''Fetch failed: '' @ text)"

definition synced_config ::
  "env \<Rightarrow> shared_data_config \<Rightarrow> fetch_result \<Rightarrow> shared_data_config" where
  "synced_config e c r =
     (case r of
        NetworkError msg \<Rightarrow> c
      | Response code text tag len b \<Rightarrow>
          c \<lparr> lastSync := Some (now e), lastEtag := tag,
              lastSize := Some (case len of None \<Rightarrow> 0 | Some n \<Rightarrow> n) \<rparr>)"

text \<open>The list data that the timer callbacks read back from the store.\<close>

definition freshListData :: "env \<Rightarrow> state \<Rightarrow> list_data" where
  "freshListData e st =
     (case IDB_LIST_DATA_KEY (idb st) of None \<Rightarrow> initialListData e | Some d \<Rightarrow> d)"

subsection \<open>Concrete inputs\<close>

definition example_env :: env where
  "example_env =
     \<lparr> SENSITIVE_GENRES = [''Hentai''],
       genres_list = [\<lparr> name = ''Hentai'', type_genre = ''genre'' \<rparr>,
                      \<lparr> name = ''Ecchi'', type_genre = ''genre'' \<rparr>,
                      \<lparr> name = ''Nudity'', type_genre = ''tag'' \<rparr>],
       storage_estimate = Estimate (Some 100),
       now = 907200000,
       uuidv4 = (\<lambda>k. ''uuid-'' @ digits k),
       fetch = (\<lambda>request. NetworkError ''Failed to fetch'') \<rparr>"

definition example_anime :: anime where
  "example_anime =
     \<lparr> id_anime = 5, type_anime = ''ANIME'', title_anime = ''Title'', episodes = Some 12,
       chapters = None, volumes = None, synopsis = Some ''Text'' \<rparr>"

definition example_data :: list_data where
  "example_data =
     \<lparr> planToWatch = [1, 5], currentlyWatching = [5], planToRead = [], currentlyReading = [],
       watchedEpisodes = Map.empty, readChapters = Map.empty, notifications = [],
       readActivityIds = [], reminders = [], hiddenGenres = [''Ecchi''],
       sensitiveContentUnlocked = False, storageQuota = 1000 \<rparr>"

definition example_store :: store where
  "example_store =
     \<lparr> IDB_PROFILE_KEY = Some \<lparr> username = ''u'', avatar_url = ''a'' \<rparr>,
       IDB_LIST_DATA_KEY = Some example_data,
       IDB_LAYOUT_CONFIG_KEY = None,
       IDB_TRACKED_MEDIA_KEY = Some [example_anime \<lparr> synopsis := None \<rparr>],
       IDB_SHARED_DATA_KEY = None \<rparr>"

definition example_state :: state where
  "example_state =
     \<lparr> idb = example_store, listData = example_data,
       trackedMedia = [example_anime \<lparr> synopsis := None \<rparr>],
       sharedDataConfig = \<lparr> url = None, lastSync = None, lastSize = None, lastEtag = None \<rparr>,
       isSyncing = False, effects = [] \<rparr>"

text \<open>The test under which the scheduler pass pushes a notification for a reminder.\<close>

definition notification_cond :: "env \<Rightarrow> state \<Rightarrow> reminder \<Rightarrow> bool" where
  "notification_cond e st r =
     (isPast (now e) (startDateTime r)
      \<and> Some (id_reminder r) \<notin> existingReminderNotifications st
      \<and> \<not> isMediaCompleted st r)"

text \<open>The first test of \<open>isReminderDue\<close>: a one-time reminder.\<close>

definition one_shot :: "reminder \<Rightarrow> bool" where
  "one_shot r = (repeatIntervalDays r = 0 \<and> no_weekly_days r)"

definition example_oneshot :: reminder where
  "example_oneshot =
     \<lparr> id_reminder = ''r1'', mediaId = 5, title = ''Watch'', notes_reminder = ''Episode 3'',
       startDateTime = 205200000, repeatIntervalDays = 0, repeatOnDays = None,
       autoStopOnCompletion = False \<rparr>"

definition example_interval :: reminder where
  "example_interval = example_oneshot \<lparr> id_reminder := ''r2'', repeatIntervalDays := 3 \<rparr>"

definition example_weekly :: reminder where
  "example_weekly = example_oneshot \<lparr> id_reminder := ''r3'', repeatOnDays := Some [1, 4] \<rparr>"

definition example_autostop :: reminder where
  "example_autostop =
     example_oneshot \<lparr> id_reminder := ''r4'', mediaId := 9, autoStopOnCompletion := True \<rparr>"

definition oneshot_state :: state where
  "oneshot_state =
     example_state \<lparr> listData := example_data \<lparr> reminders := [example_oneshot] \<rparr> \<rparr>"

definition weekly_state :: state where
  "weekly_state =
     example_state \<lparr> listData := example_data \<lparr> reminders := [example_weekly] \<rparr> \<rparr>"

definition completed_state :: state where
  "completed_state =
     example_state
       \<lparr> listData := example_data \<lparr> reminders := [example_autostop],
                                    watchedEpisodes := [9 \<mapsto> [''1'']] \<rparr>,
         trackedMedia := [example_anime \<lparr> id_anime := 9, episodes := Some 1, synopsis := None \<rparr>] \<rparr>"

definition unlisted_data :: list_data where
  "unlisted_data = example_data \<lparr> hiddenGenres := [''Foo''], sensitiveContentUnlocked := True \<rparr>"

definition example_config :: shared_data_config where
  "example_config =
     \<lparr> url = Some ''https://example.org/data.json'', lastSync = None, lastSize = None,
       lastEtag = Some ''v1'' \<rparr>"

definition sync_state :: state where
  "sync_state =
     example_state \<lparr> idb := example_store \<lparr> IDB_SHARED_DATA_KEY := Some example_config \<rparr>,
                     sharedDataConfig := example_config \<rparr>"

definition malformed_env :: env where
  "malformed_env =
     example_env \<lparr> fetch := (\<lambda>request. Response 200 ''OK'' (Some ''v2'') (Some 40)
       (Some \<lparr> profile = Some \<lparr> username = ''v'', avatar_url = ''b'' \<rparr>, lists = None,
               layout = None, tracked = None \<rparr>)) \<rparr>"

definition not_modified_env :: env where
  "not_modified_env =
     example_env \<lparr> fetch := (\<lambda>request. Response 304 ''Not Modified'' (Some ''v1'') None None) \<rparr>"

definition full_env :: env where
  "full_env = example_env \<lparr> storage_estimate := Estimate (Some 2000) \<rparr>"

definition new_anime :: anime where
  "new_anime = example_anime \<lparr> id_anime := 7 \<rparr>"

definition watching_data :: list_data where
  "watching_data = example_data \<lparr> planToWatch := [1] \<rparr>"

definition watching_state :: state where
  "watching_state =
     example_state \<lparr> listData := watching_data,
                     idb := example_store \<lparr> IDB_LIST_DATA_KEY := Some watching_data \<rparr> \<rparr>"

text \<open>Friday 9 January 1970, noon.\<close>

definition friday_noon :: int where
  "friday_noon = 734400000"

section \<open>Properties of the funnel\<close>

lemma checkStorageAndNotify_result:
  "checkStorageAndNotify e d st =
     (if quota_exceeded e d
      then (False,
            set_list_data (d \<lparr> notifications := notifications d @ [storageNotification e] \<rparr>)
              (st \<lparr> effects := effects st @
                 [Toast Destructive ''Storage Limit Reached''
                    ''New data cannot be saved. Please increase storage quota in settings.''] \<rparr>))
      else (True, st))"
  by (simp add: checkStorageAndNotify_def quota_exceeded_def Let_def split: storage_api.splits)

lemma updateAndPersistListData_persisted:
  "IDB_LIST_DATA_KEY (idb (updateAndPersistListData e f st)) =
     Some (if quota_exceeded e (f (listData st))
           then (f (listData st)) \<lparr> notifications :=
                   notifications (f (listData st)) @ [storageNotification e] \<rparr>
           else f (listData st))"
  by (simp add: updateAndPersistListData_def checkStorageAndNotify_result set_list_data_def Let_def)

lemma updateAndPersistListData_listData:
  "listData (updateAndPersistListData e f st) = f (listData st)"
  by (simp add: updateAndPersistListData_def checkStorageAndNotify_result set_list_data_def Let_def)

lemma updateAndPersistListData_frame:
  "trackedMedia (updateAndPersistListData e f st) = trackedMedia st"
  "IDB_TRACKED_MEDIA_KEY (idb (updateAndPersistListData e f st)) = IDB_TRACKED_MEDIA_KEY (idb st)"
  "IDB_PROFILE_KEY (idb (updateAndPersistListData e f st)) = IDB_PROFILE_KEY (idb st)"
  "sharedDataConfig (updateAndPersistListData e f st) = sharedDataConfig st"
  by (simp_all add: updateAndPersistListData_def checkStorageAndNotify_result set_list_data_def Let_def)

text \<open>
  Claim C1, evaluated on the code. With usage 2000 above the quota 1000, the guard
  returns \<open>false\<close> and one storage notification is appended, but the payload that it
  persists is the updated data: after \<open>togglePlanToWatch\<close> of item 7 the stored
  \<open>planToWatch\<close> is \<open>[1, 5, 7]\<close>, not the \<open>[1, 5]\<close> stored before. By
  \<open>updateAndPersistListData_persisted\<close> this is so for every mutation.
\<close>

theorem quota_veto_persists_mutation:
  "quota_exceeded full_env (toggle_membership 7 PlanToWatch (listData example_state))
   \<and> fst (checkStorageAndNotify full_env
        (toggle_membership 7 PlanToWatch (listData example_state)) example_state) = False
   \<and> map_option planToWatch (IDB_LIST_DATA_KEY (idb example_state)) = Some [1, 5]
   \<and> map_option planToWatch
        (IDB_LIST_DATA_KEY (idb (togglePlanToWatch full_env new_anime example_state)))
       = Some [1, 5, 7]
   \<and> map_option (\<lambda>d. map type_notification (notifications d))
        (IDB_LIST_DATA_KEY (idb (togglePlanToWatch full_env new_anime example_state)))
       = Some [StorageType]"
proof -
  have q: "quota_exceeded full_env (toggle_membership 7 PlanToWatch (listData example_state))"
    by (simp add: quota_exceeded_def full_env_def example_env_def toggle_membership_def
        example_state_def example_data_def)
  have i: "id_anime new_anime = 7"
    by (simp add: new_anime_def)
  have d: "planToWatch (toggle_membership 7 PlanToWatch (listData example_state)) = [1, 5, 7]"
    "notifications (toggle_membership 7 PlanToWatch (listData example_state)) = []"
    by (simp_all add: toggle_membership_def example_state_def example_data_def)
  have s: "map_option planToWatch (IDB_LIST_DATA_KEY (idb example_state)) = Some [1, 5]"
    by (simp add: example_state_def example_store_def example_data_def)
  show ?thesis
    using q d s
    by (simp add: togglePlanToWatch_def handleToggleListMembership_def i
        updateAndPersistListData_persisted checkStorageAndNotify_result storageNotification_def)
qed

section \<open>Toggling list membership\<close>

lemma get_put_list: "get_list l (put_list l' xs d) = (if l = l' then xs else get_list l d)"
  by (cases l; cases l') simp_all

lemma toggle_membership_twice_set:
  "set (get_list l (toggle_membership x l (toggle_membership x l d))) = set (get_list l d)"
  by (auto simp: toggle_membership_def Let_def get_put_list)

lemma toggle_membership_twice_distinct:
  "distinct (get_list l d) \<Longrightarrow>
   distinct (get_list l (toggle_membership x l (toggle_membership x l d)))"
  by (auto simp: toggle_membership_def Let_def get_put_list)

lemma toggle_membership_other:
  "l' \<noteq> l \<Longrightarrow> get_list l' (toggle_membership x l d) = get_list l' d"
  by (auto simp: toggle_membership_def Let_def get_put_list)

lemma currently_watching_twice:
  "set (currentlyWatching (currently_watching_update x (currently_watching_update x d)))
     = set (currentlyWatching d)"
  "distinct (currentlyWatching d) \<Longrightarrow>
   distinct (currentlyWatching (currently_watching_update x (currently_watching_update x d)))"
  by (auto simp: currently_watching_update_def)

lemma currently_reading_twice:
  "set (currentlyReading (currently_reading_update x (currently_reading_update x d)))
     = set (currentlyReading d)"
  "distinct (currentlyReading d) \<Longrightarrow>
   distinct (currentlyReading (currently_reading_update x (currently_reading_update x d)))"
  by (auto simp: currently_reading_update_def)

text \<open>
  Claim C7. For each of the four primary lists and every media item, toggling the
  item's membership in that list twice in succession gives the list its original set of
  members back, and a list without duplicates stays without duplicates. This holds for
  \<open>handleToggleListMembership\<close> on each list name, and for \<open>toggleCurrentlyWatching\<close>
  and \<open>toggleCurrentlyReading\<close> on the list they toggle.
\<close>

theorem toggle_twice_restores_members:
  "set (get_list l (listData
      (handleToggleListMembership e2 m l (handleToggleListMembership e1 m l st))))
     = set (get_list l (listData st))
   \<and> (distinct (get_list l (listData st)) \<longrightarrow>
        distinct (get_list l (listData
          (handleToggleListMembership e2 m l (handleToggleListMembership e1 m l st)))))
   \<and> set (currentlyWatching (listData
        (toggleCurrentlyWatching e2 m (toggleCurrentlyWatching e1 m st))))
     = set (currentlyWatching (listData st))
   \<and> (distinct (currentlyWatching (listData st)) \<longrightarrow>
        distinct (currentlyWatching (listData
          (toggleCurrentlyWatching e2 m (toggleCurrentlyWatching e1 m st)))))
   \<and> set (currentlyReading (listData
        (toggleCurrentlyReading e2 m (toggleCurrentlyReading e1 m st))))
     = set (currentlyReading (listData st))
   \<and> (distinct (currentlyReading (listData st)) \<longrightarrow>
        distinct (currentlyReading (listData
          (toggleCurrentlyReading e2 m (toggleCurrentlyReading e1 m st)))))"
  by (simp add: handleToggleListMembership_def toggleCurrentlyWatching_def
      toggleCurrentlyReading_def updateAndPersistListData_listData
      toggle_membership_twice_set toggle_membership_twice_distinct
      currently_watching_twice currently_reading_twice)

theorem toggle_twice_restores_members_witness:
  "distinct (get_list PlanToWatch (listData example_state))
   \<and> distinct (currentlyWatching (listData example_state))
   \<and> distinct (currentlyReading (listData example_state))
   \<and> set (get_list PlanToWatch (listData
        (handleToggleListMembership example_env example_anime PlanToWatch
          (handleToggleListMembership example_env example_anime PlanToWatch example_state))))
     = {1, 5}
   \<and> distinct (get_list PlanToWatch (listData
        (handleToggleListMembership example_env example_anime PlanToWatch
          (handleToggleListMembership example_env example_anime PlanToWatch example_state))))
   \<and> distinct (currentlyWatching (listData
        (toggleCurrentlyWatching example_env example_anime
          (toggleCurrentlyWatching example_env example_anime example_state))))
   \<and> distinct (currentlyReading (listData
        (toggleCurrentlyReading example_env example_anime
          (toggleCurrentlyReading example_env example_anime example_state))))"
proof -
  have d: "distinct (get_list PlanToWatch (listData example_state))"
    "distinct (currentlyWatching (listData example_state))"
    "distinct (currentlyReading (listData example_state))"
    "set (get_list PlanToWatch (listData example_state)) = {1, 5}"
    by (simp_all add: example_state_def example_data_def)
  show ?thesis
    using d toggle_twice_restores_members
      [of PlanToWatch example_env example_anime example_env example_state]
    by simp
qed

text \<open>
  Claim C10. \<open>toggleCurrentlyWatching m\<close> always leaves \<open>m.id\<close> out of \<open>planToWatch\<close>,
  and \<open>toggleCurrentlyReading m\<close> always leaves \<open>m.id\<close> out of \<open>planToRead\<close>, whether the
  call adds the id to the currently-list or removes it; so right after either call the
  id is not in the plan-list and the currently-list at once. This holds for the list data
  in memory and for the list data that the call persists.
\<close>

theorem toggle_currently_clears_plan:
  "id_anime m \<notin> set (planToWatch (listData (toggleCurrentlyWatching e m st)))
   \<and> id_anime m \<notin> set (planToRead (listData (toggleCurrentlyReading e m st)))
   \<and> \<not> (id_anime m \<in> set (planToWatch (listData (toggleCurrentlyWatching e m st)))
        \<and> id_anime m \<in> set (currentlyWatching (listData (toggleCurrentlyWatching e m st))))
   \<and> \<not> (id_anime m \<in> set (planToRead (listData (toggleCurrentlyReading e m st)))
        \<and> id_anime m \<in> set (currentlyReading (listData (toggleCurrentlyReading e m st))))
   \<and> (\<exists>d. IDB_LIST_DATA_KEY (idb (toggleCurrentlyWatching e m st)) = Some d
          \<and> id_anime m \<notin> set (planToWatch d))
   \<and> (\<exists>d. IDB_LIST_DATA_KEY (idb (toggleCurrentlyReading e m st)) = Some d
          \<and> id_anime m \<notin> set (planToRead d))"
  by (simp add: toggleCurrentlyWatching_def toggleCurrentlyReading_def
      updateAndPersistListData_listData updateAndPersistListData_persisted
      currently_watching_update_def currently_reading_update_def)

theorem toggle_currently_clears_plan_witness:
  "5 \<in> set (planToWatch (listData example_state))
   \<and> 5 \<notin> set (planToWatch (listData
        (toggleCurrentlyWatching example_env example_anime example_state)))
   \<and> 5 \<notin> set (planToRead (listData
        (toggleCurrentlyReading example_env example_anime example_state)))"
proof -
  have "id_anime example_anime = 5"
    by (simp add: example_anime_def)
  moreover have "5 \<in> set (planToWatch (listData example_state))"
    by (simp add: example_state_def example_data_def)
  ultimately show ?thesis
    using toggle_currently_clears_plan [of example_anime example_env example_state]
    by simp
qed

section \<open>Due-ness of reminders\<close>

lemma js_rem_zero_iff: "js_rem a b = Some 0 \<longleftrightarrow> b \<noteq> 0 \<and> b dvd a"
  by (auto simp: js_rem_def dvd_eq_mod_eq_0 [symmetric])

lemma daysSinceStart_pos_past:
  "0 < daysSinceStart clock r \<Longrightarrow> isPast clock (startDateTime r)"
proof -
  assume a: "0 < daysSinceStart clock r"
  have "\<not> (clock - startDateTime r \<le> 0)"
  proof
    assume "clock - startDateTime r \<le> 0"
    then have "(clock - startDateTime r) div MS_PER_DAY \<le> 0"
      by (simp add: MS_PER_DAY_def div_nonpos_pos_le0)
    with a show False by (simp add: daysSinceStart_def)
  qed
  then show ?thesis by (simp add: isPast_def)
qed

lemma daysSinceStart_nonneg:
  "isPast clock (startDateTime r) \<Longrightarrow> 0 \<le> daysSinceStart clock r"
  by (simp add: isPast_def daysSinceStart_def MS_PER_DAY_def pos_imp_zdiv_nonneg_iff)

lemma interval_due_iff_started:
  assumes "0 < repeatIntervalDays r" "no_weekly_days r"
  shows "isReminderDue clock r = isPast clock (startDateTime r)"
proof (cases "isPast clock (startDateTime r)")
  case True
  then have n: "0 \<le> daysSinceStart clock r" by (rule daysSinceStart_nonneg)
  show ?thesis
  proof (cases "daysSinceStart clock r = 0")
    case True
    with assms \<open>isPast clock (startDateTime r)\<close> show ?thesis
      by (simp add: isReminderDue_def js_rem_def Let_def)
  next
    case False
    with n have "0 < daysSinceStart clock r" by simp
    with assms \<open>isPast clock (startDateTime r)\<close> show ?thesis
      by (simp add: isReminderDue_def Let_def)
  qed
next
  case False
  with assms show ?thesis by (simp add: isReminderDue_def Let_def)
qed

text \<open>
  Claim C9. For an interval reminder (\<open>repeatIntervalDays > 0\<close>, no weekly days) the
  due-check answers "due" exactly when \<open>startDateTime\<close> is in the past and the whole
  number of days since the start is a multiple of the interval or is more than zero. So
  the check answers "due" on every evaluation once more than zero whole days have gone by
  since the start.
\<close>

theorem interval_reminder_due:
  assumes "0 < repeatIntervalDays r" and "no_weekly_days r"
  shows "(isReminderDue clock r \<longleftrightarrow>
            isPast clock (startDateTime r)
            \<and> (repeatIntervalDays r dvd daysSinceStart clock r
               \<or> 0 < daysSinceStart clock r))
         \<and> (0 < daysSinceStart clock r \<longrightarrow> isReminderDue clock r)"
proof -
  have "isReminderDue clock r \<longleftrightarrow>
            isPast clock (startDateTime r)
            \<and> (repeatIntervalDays r dvd daysSinceStart clock r
               \<or> 0 < daysSinceStart clock r)"
    using assms by (simp add: isReminderDue_def Let_def js_rem_zero_iff)
  moreover have "0 < daysSinceStart clock r \<longrightarrow> isReminderDue clock r"
    using assms daysSinceStart_pos_past [of clock r] by (simp add: isReminderDue_def Let_def)
  ultimately show ?thesis by simp
qed

theorem interval_reminder_due_witness:
  "0 < repeatIntervalDays example_interval
   \<and> no_weekly_days example_interval
   \<and> daysSinceStart 907200000 example_interval = 8
   \<and> \<not> repeatIntervalDays example_interval dvd daysSinceStart 907200000 example_interval
   \<and> isReminderDue 907200000 example_interval"
proof -
  have h: "0 < repeatIntervalDays example_interval" "no_weekly_days example_interval"
    by (simp_all add: example_interval_def example_oneshot_def no_weekly_days_def weekly_days_def)
  have d: "daysSinceStart 907200000 example_interval = 8"
    by (simp add: example_interval_def example_oneshot_def daysSinceStart_def MS_PER_DAY_def)
  have j: "\<not> repeatIntervalDays example_interval dvd 8"
    by (simp add: example_interval_def example_oneshot_def)
  have "0 < daysSinceStart 907200000 example_interval \<longrightarrow>
        isReminderDue 907200000 example_interval"
    using interval_reminder_due [OF h, of 907200000] by (rule conjunct2)
  then have "isReminderDue 907200000 example_interval"
    by (simp add: d)
  then show ?thesis
    using h d j by simp
qed

section \<open>Weekly reminders\<close>

lemma weekly_loop_all:
  "weekly_loop clock s ds = list_all (\<lambda>d. isPast clock (nextOccurrence clock s d)) ds"
  by (induction ds) simp_all

lemma weekly_due_iff:
  "\<not> no_weekly_days r \<Longrightarrow>
   isReminderDue clock r =
     (\<forall>d \<in> set (weekly_days r). isPast clock (nextOccurrence clock (startDateTime r) d))"
  by (simp add: isReminderDue_def Let_def weekly_loop_all list_all_iff)

lemma getDay_range: "0 \<le> getDay t \<and> getDay t \<le> 6"
  by (simp add: getDay_def) 

lemma nextDay_future: "0 \<le> day \<Longrightarrow> t + MS_PER_DAY \<le> nextDay t day"
proof -
  assume d: "0 \<le> day"
  have g: "0 \<le> getDay t \<and> getDay t \<le> 6" by (rule getDay_range)
  have "1 \<le> (if day - getDay t \<le> 0 then day - getDay t + 7 else day - getDay t)"
    using d g by auto
  then have "1 * MS_PER_DAY \<le> (if day - getDay t \<le> 0 then day - getDay t + 7 else day - getDay t) * MS_PER_DAY"
    by (intro mult_right_mono) (simp_all add: MS_PER_DAY_def)
  then show ?thesis by (simp add: nextDay_def addDays_def Let_def)
qed

lemma setHours_lower: "0 \<le> h \<Longrightarrow> 0 \<le> m \<Longrightarrow> t - t mod MS_PER_DAY \<le> setHours t h m"
  by (simp add: setHours_def)

lemma day_start_mono: "a + MS_PER_DAY \<le> b \<Longrightarrow> a < b - b mod MS_PER_DAY"
proof -
  assume ab: "a + MS_PER_DAY \<le> b"
  have "b mod MS_PER_DAY < MS_PER_DAY" by (simp add: MS_PER_DAY_def)
  with ab show ?thesis by linarith
qed

lemma getHours_nonneg: "0 \<le> getHours t" 
  by (simp add: getHours_def MS_PER_DAY_def pos_imp_zdiv_nonneg_iff)
lemma getMinutes_nonneg: "0 \<le> getMinutes t"
  by (simp add: getMinutes_def pos_imp_zdiv_nonneg_iff)

lemma nextOccurrence_future:
  assumes "0 \<le> day" shows "\<not> isPast clock (nextOccurrence clock s day)"
proof -
  have "clock < nextDay clock day - nextDay clock day mod MS_PER_DAY"
    using nextDay_future [OF assms] by (rule day_start_mono)
  also have "\<dots> \<le> nextOccurrence clock s day"
    unfolding nextOccurrence_def by (rule setHours_lower [OF getHours_nonneg getMinutes_nonneg])
  finally show ?thesis by (simp add: isPast_def)
qed

lemma weekly_never_due:
  assumes "\<not> no_weekly_days r" and "\<forall>d \<in> set (weekly_days r). 0 \<le> d"
  shows "\<not> isReminderDue clock r"
proof -
  from assms(1) obtain d where d: "d \<in> set (weekly_days r)"
    by (cases "weekly_days r") (auto simp: no_weekly_days_def)
  with assms(2) have "\<not> isPast clock (nextOccurrence clock (startDateTime r) d)"
    by (simp add: nextOccurrence_future)
  with d show ?thesis using assms(1) by (auto simp: weekly_due_iff)
qed

section \<open>The scheduler pass\<close>

lemma reminderNotification_for:
  "(type_notification (reminderNotification e k r) = ReminderType
    \<and> reminderId (reminderNotification e k r) = Some rid) = (id_reminder r = rid)"
  by (simp add: reminderNotification_def)

lemma reminders_forEach_count:
  "length (filter (\<lambda>n. type_notification n = ReminderType \<and> reminderId n = Some rid)
      (reminders_forEach e st rs acc))
   = length (filter (\<lambda>n. type_notification n = ReminderType \<and> reminderId n = Some rid) acc)
     + length (filter (\<lambda>r. id_reminder r = rid \<and> notification_cond e st r) rs)"
proof (induction rs arbitrary: acc)
  case Nil
  show ?case by simp
next
  case (Cons r rs)
  show ?case
    by (simp add: Cons.IH notification_cond_def reminderNotification_for)
qed

lemma existing_iff:
  "Some rid \<in> existingReminderNotifications st \<longleftrightarrow> reminder_notifications_for rid st \<noteq> []"
  by (force simp: existingReminderNotifications_def reminder_notifications_for_def
      filter_empty_conv image_iff)

lemma check_frame:
  "reminders (listData (checkRemindersAndCreateNotifications e st)) = reminders (listData st)"
  "watchedEpisodes (listData (checkRemindersAndCreateNotifications e st)) = watchedEpisodes (listData st)"
  "readChapters (listData (checkRemindersAndCreateNotifications e st)) = readChapters (listData st)"
  "trackedMedia (checkRemindersAndCreateNotifications e st) = trackedMedia st"
  by (simp_all add: checkRemindersAndCreateNotifications_def Let_def
      updateAndPersistListData_listData updateAndPersistListData_frame)

lemma isMediaCompleted_check:
  "isMediaCompleted (checkRemindersAndCreateNotifications e st) r = isMediaCompleted st r"
  by (simp only: isMediaCompleted_def check_frame)

lemma check_count:
  "length (reminder_notifications_for rid (checkRemindersAndCreateNotifications e st))
   = length (reminder_notifications_for rid st)
     + length (filter (\<lambda>r. id_reminder r = rid \<and> notification_cond e st r)
         (reminders (listData st)))"
proof (cases "reminders_forEach e st (reminders (listData st)) [] = []")
  case True
  have "length (filter (\<lambda>r. id_reminder r = rid \<and> notification_cond e st r)
         (reminders (listData st))) = 0"
    using reminders_forEach_count [of rid e st "reminders (listData st)" "[]"] True by simp
  then show ?thesis
    using True by (simp add: checkRemindersAndCreateNotifications_def)
next
  case False
  then show ?thesis
    using reminders_forEach_count [of rid e st "reminders (listData st)" "[]"]
    by (simp add: checkRemindersAndCreateNotifications_def Let_def
        updateAndPersistListData_listData reminder_notifications_for_def)
qed

lemma filter_unique_key:
  "distinct (map f xs) \<Longrightarrow> x \<in> set xs \<Longrightarrow> filter (\<lambda>y. f y = f x) xs = [x]"
proof (induction xs)
  case Nil
  then show ?case by simp
next
  case (Cons a xs)
  show ?case
  proof (cases "a = x")
    case True
    from Cons.prems(1) have "f a \<notin> f ` set xs" by simp
    then have "\<forall>y \<in> set xs. f y \<noteq> f a" by (auto simp: image_iff)
    then have "filter (\<lambda>y. f y = f a) xs = []" by (simp add: filter_empty_conv)
    with True show ?thesis by simp
  next
    case False
    with Cons.prems have x: "x \<in> set xs" and n: "f a \<noteq> f x" by auto
    from Cons.IH Cons.prems(1) x have "filter (\<lambda>y. f y = f x) xs = [x]" by simp
    with n show ?thesis by simp
  qed
qed

lemma check_count_unique:
  assumes "r \<in> set (reminders (listData st))"
    and "distinct (map id_reminder (reminders (listData st)))"
  shows "length (reminder_notifications_for (id_reminder r)
           (checkRemindersAndCreateNotifications e st))
         = length (reminder_notifications_for (id_reminder r) st)
           + (if notification_cond e st r then 1 else 0)"
proof -
  have "filter (\<lambda>y. id_reminder y = id_reminder r \<and> notification_cond e st y)
          (reminders (listData st))
        = filter (notification_cond e st)
            (filter (\<lambda>y. id_reminder y = id_reminder r) (reminders (listData st)))"
    by (simp add: conj_commute)
  also have "\<dots> = filter (notification_cond e st) [r]"
    using filter_unique_key [OF assms(2) assms(1)] by simp
  finally show ?thesis by (simp add: check_count)
qed

lemma check_count_existing:
  assumes "reminder_notifications_for rid st \<noteq> []"
  shows "length (reminder_notifications_for rid (checkRemindersAndCreateNotifications e st))
         = length (reminder_notifications_for rid st)"
proof -
  have "filter (\<lambda>r. id_reminder r = rid \<and> notification_cond e st r) (reminders (listData st)) = []"
    using assms by (auto simp: filter_empty_conv notification_cond_def existing_iff)
  then show ?thesis by (simp add: check_count)
qed

lemma passes_keep_one:
  "length (reminder_notifications_for rid st) = 1 \<Longrightarrow>
   length (reminder_notifications_for rid (scheduler_passes es st)) = 1"
proof (induction es arbitrary: st)
  case Nil
  then show ?case by simp
next
  case (Cons e es)
  from Cons.prems have "reminder_notifications_for rid st \<noteq> []" by auto
  then have "length (reminder_notifications_for rid (checkRemindersAndCreateNotifications e st)) = 1"
    using Cons.prems by (simp add: check_count_existing)
  then show ?case by (simp add: Cons.IH)
qed

text \<open>
  What the code does with a weekly reminder: \<open>isReminderDue\<close> answers "not due" whenever
  some configured weekday's next occurrence is not in the past, and the scheduler pass,
  which does not call \<open>isReminderDue\<close>, counts the reminder like any other.
\<close>

lemma weekly_reminder_pass:
  assumes "\<not> no_weekly_days r"
  shows "((\<exists>d \<in> set (weekly_days r).
             \<not> isPast clock (nextOccurrence clock (startDateTime r) d))
          \<longrightarrow> \<not> isReminderDue clock r)
         \<and> (r \<in> set (reminders (listData st))
              \<and> distinct (map id_reminder (reminders (listData st)))
            \<longrightarrow> length (reminder_notifications_for (id_reminder r)
                    (checkRemindersAndCreateNotifications e st))
                = length (reminder_notifications_for (id_reminder r) st)
                  + (if isPast (now e) (startDateTime r)
                        \<and> reminder_notifications_for (id_reminder r) st = []
                        \<and> \<not> isMediaCompleted st r
                     then 1 else 0))"
proof -
  have "(\<exists>d \<in> set (weekly_days r).
             \<not> isPast clock (nextOccurrence clock (startDateTime r) d))
          \<longrightarrow> \<not> isReminderDue clock r"
    using assms by (simp add: weekly_due_iff)
  moreover have "notification_cond e st r
      = (isPast (now e) (startDateTime r)
         \<and> reminder_notifications_for (id_reminder r) st = []
         \<and> \<not> isMediaCompleted st r)"
    by (simp add: notification_cond_def existing_iff)
  ultimately show ?thesis
    using check_count_unique [of r st e] by simp
qed

lemma example_weekly_facts:
  "\<not> no_weekly_days example_weekly"
  "weekly_days example_weekly = [1, 4]"
  "example_weekly \<in> set (reminders (listData weekly_state))"
  "distinct (map id_reminder (reminders (listData weekly_state)))"
  "isPast (now example_env) (startDateTime example_weekly)"
  "reminder_notifications_for (id_reminder example_weekly) weekly_state = []"
  "\<not> isMediaCompleted weekly_state example_weekly"
  "nextOccurrence (now example_env) (startDateTime example_weekly) 1 = 982800000"
  "now example_env = 907200000"
  by (simp_all add: weekly_state_def example_state_def example_data_def example_weekly_def
      example_oneshot_def no_weekly_days_def weekly_days_def isPast_def example_env_def
      reminder_notifications_for_def isMediaCompleted_def nextOccurrence_def nextDay_def
      setHours_def getDay_def getHours_def getMinutes_def addDays_def MS_PER_DAY_def Let_def)

text \<open>
  Claim C3, evaluated on the code. A reminder for Mondays and Thursdays at 09:00 that
  started on Saturday 3 January 1970 is evaluated on Friday 9 January at noon: the
  Monday and the Thursday occurrence of that week are both in the past, yet
  \<open>isReminderDue\<close> answers "not due", because the occurrence it looks at is the Monday of
  the week after (\<open>weekly_never_due\<close>: for weekday indices from 0 on it never answers
  "due"). On Sunday 11 January at noon \<open>isReminderDue\<close> still answers "not due", and the
  scheduler pass creates the reminder's notification all the same.
\<close>

theorem weekly_reminder_never_due_evaluated:
  "weekly_days example_weekly = [1, 4]
   \<and> getDay friday_noon = 5
   \<and> isPast friday_noon (startDateTime example_weekly)
   \<and> isPast friday_noon
        (setHours (addDays friday_noon (- 4)) (getHours (startDateTime example_weekly))
           (getMinutes (startDateTime example_weekly)))
   \<and> isPast friday_noon
        (setHours (addDays friday_noon (- 1)) (getHours (startDateTime example_weekly))
           (getMinutes (startDateTime example_weekly)))
   \<and> nextOccurrence friday_noon (startDateTime example_weekly) 1 = 982800000
   \<and> isReminderDue friday_noon example_weekly = False
   \<and> isReminderDue (now example_env) example_weekly = False
   \<and> length (reminder_notifications_for (id_reminder example_weekly) weekly_state) = 0
   \<and> length (reminder_notifications_for (id_reminder example_weekly)
        (checkRemindersAndCreateNotifications example_env weekly_state)) = 1"
proof -
  have f: "weekly_days example_weekly = [1, 4]"
    "getDay friday_noon = 5"
    "isPast friday_noon (startDateTime example_weekly)"
    "isPast friday_noon
        (setHours (addDays friday_noon (- 4)) (getHours (startDateTime example_weekly))
           (getMinutes (startDateTime example_weekly)))"
    "isPast friday_noon
        (setHours (addDays friday_noon (- 1)) (getHours (startDateTime example_weekly))
           (getMinutes (startDateTime example_weekly)))"
    "nextOccurrence friday_noon (startDateTime example_weekly) 1 = 982800000"
    by (simp_all add: friday_noon_def example_weekly_def example_oneshot_def weekly_days_def
        isPast_def nextOccurrence_def nextDay_def setHours_def getDay_def getHours_def
        getMinutes_def addDays_def MS_PER_DAY_def Let_def)
  have w: "\<not> no_weekly_days example_weekly"
    by (simp add: no_weekly_days_def f(1))
  have d: "\<not> isReminderDue clock example_weekly" for clock
    by (rule weekly_never_due [OF w]) (simp add: f(1))
  have "notification_cond example_env weekly_state example_weekly"
    using example_weekly_facts by (simp add: notification_cond_def existing_iff)
  then show ?thesis
    using f d example_weekly_facts(6)
      check_count_unique [OF example_weekly_facts(3,4), of example_env]
    by simp
qed

lemma passes_keep_zero:
  assumes "r \<in> set (reminders (listData st))"
    and "distinct (map id_reminder (reminders (listData st)))"
    and "reminder_notifications_for (id_reminder r) st = []"
    and "isMediaCompleted st r"
  shows "reminder_notifications_for (id_reminder r) (scheduler_passes es st) = []"
  using assms
proof (induction es arbitrary: st)
  case Nil
  then show ?case by simp
next
  case (Cons e es)
  have "\<not> notification_cond e st r"
    using Cons.prems(4) by (simp add: notification_cond_def)
  then have "length (reminder_notifications_for (id_reminder r)
      (checkRemindersAndCreateNotifications e st)) = 0"
    using check_count_unique [OF Cons.prems(1,2), of e] Cons.prems(3) by simp
  then have z: "reminder_notifications_for (id_reminder r)
      (checkRemindersAndCreateNotifications e st) = []"
    by simp
  have "reminder_notifications_for (id_reminder r)
      (scheduler_passes es (checkRemindersAndCreateNotifications e st)) = []"
    using Cons.prems(1,2,4) z
    by (intro Cons.IH) (simp_all add: check_frame isMediaCompleted_check)
  then show ?case by simp
qed

text \<open>
  Claim C4, as the code has it. Take a one-shot reminder with a unique id whose
  \<open>startDateTime\<close> is in the past at every pass and which has no reminder notification
  yet, and run any number \<open>N \<ge> 1\<close> of scheduler passes. When \<open>isMediaCompleted\<close> is false
  for it in the state the passes run on (\<open>autoStopOnCompletion\<close> off, or its media not in
  the tracked media in memory, or without a total, or with progress below the total),
  exactly one reminder notification refers to it afterwards. When \<open>isMediaCompleted\<close> is
  true for it in that state, none does.
\<close>

theorem one_shot_notified_once:
  assumes "r \<in> set (reminders (listData st))"
    and "distinct (map id_reminder (reminders (listData st)))"
    and "one_shot r"
    and "es \<noteq> []"
    and "\<forall>e \<in> set es. isPast (now e) (startDateTime r)"
    and "reminder_notifications_for (id_reminder r) st = []"
  shows "(\<not> isMediaCompleted st r \<longrightarrow>
           length (reminder_notifications_for (id_reminder r) (scheduler_passes es st)) = 1)
         \<and> (isMediaCompleted st r \<longrightarrow>
           length (reminder_notifications_for (id_reminder r) (scheduler_passes es st)) = 0)"
proof (intro conjI impI)
  assume n: "\<not> isMediaCompleted st r"
  from assms(4) obtain e es' where es: "es = e # es'" by (cases es) auto
  with assms(5) have "isPast (now e) (startDateTime r)" by simp
  with assms(6) n have "notification_cond e st r"
    by (simp add: notification_cond_def existing_iff)
  then have "length (reminder_notifications_for (id_reminder r)
      (checkRemindersAndCreateNotifications e st)) = 1"
    using check_count_unique [OF assms(1,2), of e] assms(6) by simp
  then show "length (reminder_notifications_for (id_reminder r) (scheduler_passes es st)) = 1"
    unfolding es by (simp add: passes_keep_one)
next
  assume "isMediaCompleted st r"
  then show "length (reminder_notifications_for (id_reminder r) (scheduler_passes es st)) = 0"
    using passes_keep_zero [OF assms(1,2,6)] by simp
qed

lemma example_oneshot_facts:
  "example_oneshot \<in> set (reminders (listData oneshot_state))"
  "distinct (map id_reminder (reminders (listData oneshot_state)))"
  "one_shot example_oneshot"
  "isPast (now example_env) (startDateTime example_oneshot)"
  "reminder_notifications_for (id_reminder example_oneshot) oneshot_state = []"
  "\<not> isMediaCompleted oneshot_state example_oneshot"
  "id_reminder example_oneshot = ''r1''"
  by (simp_all add: oneshot_state_def example_state_def example_data_def example_oneshot_def
      one_shot_def no_weekly_days_def weekly_days_def isPast_def example_env_def
      reminder_notifications_for_def isMediaCompleted_def)

lemma example_autostop_facts:
  "example_autostop \<in> set (reminders (listData completed_state))"
  "distinct (map id_reminder (reminders (listData completed_state)))"
  "one_shot example_autostop"
  "isPast (now example_env) (startDateTime example_autostop)"
  "reminder_notifications_for (id_reminder example_autostop) completed_state = []"
  "isMediaCompleted completed_state example_autostop"
  "id_reminder example_autostop = ''r4''"
  by (simp_all add: completed_state_def example_state_def example_data_def
      example_autostop_def example_oneshot_def example_anime_def one_shot_def
      no_weekly_days_def weekly_days_def isPast_def example_env_def
      reminder_notifications_for_def isMediaCompleted_def truthy_num_def)

theorem one_shot_notified_once_witness:
  "one_shot example_oneshot
   \<and> isPast (now example_env) (startDateTime example_oneshot)
   \<and> reminder_notifications_for ''r1'' oneshot_state = []
   \<and> \<not> isMediaCompleted oneshot_state example_oneshot
   \<and> length (reminder_notifications_for ''r1''
        (scheduler_passes [example_env, example_env, example_env] oneshot_state)) = 1
   \<and> one_shot example_autostop
   \<and> reminder_notifications_for ''r4'' completed_state = []
   \<and> isMediaCompleted completed_state example_autostop
   \<and> length (reminder_notifications_for ''r4''
        (scheduler_passes [example_env, example_env, example_env] completed_state)) = 0"
  using example_oneshot_facts example_autostop_facts
    one_shot_notified_once
      [of example_oneshot oneshot_state "[example_env, example_env, example_env]"]
    one_shot_notified_once
      [of example_autostop completed_state "[example_env, example_env, example_env]"]
  by simp

text \<open>
  The claim as first stated fails on a one-shot reminder that stops on completion, on
  media whose only episode is watched: it gets no notification in two passes.
\<close>

lemma completed_state_pass:
  "checkRemindersAndCreateNotifications example_env completed_state = completed_state"
  by (simp add: checkRemindersAndCreateNotifications_def completed_state_def example_state_def
      example_data_def example_autostop_def example_oneshot_def example_anime_def
      isMediaCompleted_def isPast_def example_env_def existingReminderNotifications_def
      truthy_num_def)

theorem one_shot_completed_counterexample:
  "example_autostop \<in> set (reminders (listData completed_state))
   \<and> one_shot example_autostop
   \<and> isPast (now example_env) (startDateTime example_autostop)
   \<and> length (reminder_notifications_for (id_reminder example_autostop)
        (scheduler_passes [example_env, example_env] completed_state)) = 0"
proof -
  have "example_autostop \<in> set (reminders (listData completed_state))"
    "one_shot example_autostop"
    "isPast (now example_env) (startDateTime example_autostop)"
    "reminder_notifications_for (id_reminder example_autostop) completed_state = []"
    by (simp_all add: completed_state_def example_state_def example_data_def
        example_autostop_def example_oneshot_def one_shot_def no_weekly_days_def
        weekly_days_def isPast_def example_env_def reminder_notifications_for_def)
  then show ?thesis by (simp add: completed_state_pass)
qed

section \<open>Hidden genres\<close>

lemma set_from_set: "set (from_set seen_so_far xs) = set xs - set seen_so_far"
  by (induction xs arbitrary: seen_so_far) auto

lemma set_finalHidden:
  "set (finalHidden e (Some d)) =
     (if sensitiveContentUnlocked d then set (hiddenGenres d)
      else set (SENSITIVE_GENRES e) \<union> set (hiddenGenres d))"
  by (simp add: finalHidden_def Let_def set_from_set)

lemma type_of_name_known:
  "type_of_name e n = Some t \<Longrightarrow> n \<in> set (map name (genres_list e))"
  by (auto simp: type_of_name_def find_Some_iff)

lemma effective_hidden_eq:
  "effective_hidden e d s = {n \<in> set (finalHidden e (Some d)). listed e n}"
  by (auto simp: effective_hidden_def getHiddenGenres_def Let_def listed_def
      dest: type_of_name_known)

text \<open>
  Claim C8, as the code has it. With \<open>sensitiveContentUnlocked\<close> false and the user's
  hidden list \<open>H\<close>, the hidden genres and tags handed to the catalog queries are the names
  of \<open>SENSITIVE_GENRES \<union> H\<close> that \<open>genres_list\<close> lists as a genre or a tag; with
  \<open>sensitiveContentUnlocked\<close> true they are the names of \<open>H\<close> so listed. When every name
  of \<open>SENSITIVE_GENRES \<union> H\<close> is listed, these are \<open>SENSITIVE_GENRES \<union> H\<close> and \<open>H\<close>.
\<close>

theorem effective_hidden_listed:
  "(\<not> sensitiveContentUnlocked d \<longrightarrow>
      effective_hidden e d s
        = {n \<in> set (SENSITIVE_GENRES e) \<union> set (hiddenGenres d). listed e n})
   \<and> (sensitiveContentUnlocked d \<longrightarrow>
      effective_hidden e d s = {n \<in> set (hiddenGenres d). listed e n})
   \<and> ((\<forall>n \<in> set (SENSITIVE_GENRES e) \<union> set (hiddenGenres d). listed e n) \<longrightarrow>
      effective_hidden e d s
        = (if sensitiveContentUnlocked d then set (hiddenGenres d)
           else set (SENSITIVE_GENRES e) \<union> set (hiddenGenres d)))"
  by (auto simp: effective_hidden_eq set_finalHidden)

lemma example_listed:
  "listed example_env ''Hentai''" "listed example_env ''Ecchi''" "\<not> listed example_env ''Foo''"
  by (simp_all add: listed_def type_of_name_def example_env_def)

theorem effective_hidden_listed_witness:
  "\<not> sensitiveContentUnlocked example_data
   \<and> set (SENSITIVE_GENRES example_env) \<union> set (hiddenGenres example_data)
       = {''Hentai'', ''Ecchi''}
   \<and> listed example_env ''Hentai''
   \<and> listed example_env ''Ecchi''
   \<and> effective_hidden example_env example_data example_store = {''Hentai'', ''Ecchi''}"
proof -
  have h: "\<not> sensitiveContentUnlocked example_data"
    "SENSITIVE_GENRES example_env = [''Hentai'']"
    "hiddenGenres example_data = [''Ecchi'']"
    by (simp_all add: example_data_def example_env_def)
  then have a: "\<forall>n \<in> set (SENSITIVE_GENRES example_env) \<union> set (hiddenGenres example_data).
         listed example_env n"
    by (simp add: example_listed)
  show ?thesis
    using h a effective_hidden_listed [of example_data example_env example_store]
    by (auto simp: example_listed)
qed

text \<open>
  A name that \<open>genres_list\<close> does not list is dropped: with the content unlocked and the
  hidden list \<open>{Foo}\<close> nothing is hidden.
\<close>

theorem effective_hidden_counterexample:
  "sensitiveContentUnlocked unlisted_data
   \<and> set (hiddenGenres unlisted_data) = {''Foo''}
   \<and> effective_hidden example_env unlisted_data example_store = {}"
  by (simp add: unlisted_data_def example_data_def effective_hidden_eq set_finalHidden example_listed)

section \<open>Shared-data sync\<close>

lemma sync_catch_effect:
  "sync_catch msg st =
     st \<lparr> sharedDataConfig := disconnected,
          idb := (idb st) \<lparr> IDB_SHARED_DATA_KEY := Some disconnected \<rparr>,
          effects := effects st @ [Toast Destructive ''Sync Failed'' msg] \<rparr>"
  by (simp add: sync_catch_def disconnectFromSharedData_def disconnected_def Let_def)

lemma syncSharedData_attempt:
  assumes "sync_attempt st c"
  shows "syncSharedData e m st = (sync_try e m c (st \<lparr> isSyncing := True \<rparr>)) \<lparr> isSyncing := False \<rparr>"
  using assms by (simp add: syncSharedData_def sync_attempt_def)

lemma sync_try_failed:
  assumes "sync_failed (fetch e (sync_request m c))"
  shows "sync_try e m c st =
     st \<lparr> sharedDataConfig := disconnected,
          idb := (idb st) \<lparr> IDB_SHARED_DATA_KEY := Some disconnected \<rparr>,
          effects := effects st @
            [Fetch (sync_request m c),
             Toast Destructive ''Sync Failed'' (failure_message (fetch e (sync_request m c)))] \<rparr>"
proof (cases "fetch e (sync_request m c)")
  case (NetworkError msg)
  show ?thesis
    by (simp add: sync_try_def NetworkError sync_catch_effect failure_message_def Let_def)
next
  case (Response code reason tag len b)
  from assms have c304: "code \<noteq> 304" by (simp add: sync_failed_def Response)
  show ?thesis
  proof (cases "response_ok (Response code reason tag len b)")
    case False
    then show ?thesis using c304
      by (simp add: sync_try_def Response sync_catch_effect failure_message_def Let_def)
  next
    case True
    with assms have
      "b = None \<or> (\<exists>data. b = Some data \<and> (profile data = None \<or> lists data = None))"
      by (simp add: sync_failed_def Response split: option.splits)
    then show ?thesis using c304 True
      by (auto simp add: sync_try_def Response sync_catch_effect sync_ok_def
          failure_message_def Let_def)
  qed
qed

lemma sync_try_not_modified:
  assumes "not_modified (fetch e (sync_request m c))"
  shows "sync_try e m c st =
     st \<lparr> effects := effects st @
            (if m then [Fetch (sync_request m c), Toast Default ''Already Up-to-Date'' []]
             else [Fetch (sync_request m c)]) \<rparr>"
proof -
  from assms obtain code reason tag len b where
    r: "fetch e (sync_request m c) = Response code reason tag len b" and c: "code = 304"
    by (cases "fetch e (sync_request m c)") (auto simp: not_modified_def)
  show ?thesis
    by (simp add: sync_try_def r c Let_def)
qed

lemma sync_try_complete:
  assumes "complete_snapshot (fetch e (sync_request m c)) = Some data"
  shows "sync_try e m c st =
     st \<lparr> idb := (idb st)
            \<lparr> IDB_PROFILE_KEY := profile data,
              IDB_LIST_DATA_KEY := lists data,
              IDB_LAYOUT_CONFIG_KEY :=
                (case layout data of None \<Rightarrow> IDB_LAYOUT_CONFIG_KEY (idb st) | Some l \<Rightarrow> Some l),
              IDB_TRACKED_MEDIA_KEY :=
                (case tracked data of None \<Rightarrow> IDB_TRACKED_MEDIA_KEY (idb st) | Some t \<Rightarrow> Some t),
              IDB_SHARED_DATA_KEY := Some (synced_config e c (fetch e (sync_request m c))) \<rparr>,
          sharedDataConfig := synced_config e c (fetch e (sync_request m c)),
          effects := effects st @
            [Fetch (sync_request m c), Toast Default ''Sync Successful'' ''Reloading app.'',
             ReloadScheduled] \<rparr>"
proof (cases "fetch e (sync_request m c)")
  case (NetworkError msg)
  with assms show ?thesis by (simp add: complete_snapshot_def)
next
  case (Response code reason tag len b)
  from assms have "code \<noteq> 304" "response_ok (Response code reason tag len b)" "b = Some data"
    "profile data \<noteq> None" "lists data \<noteq> None"
    by (auto simp: complete_snapshot_def Response split: if_splits option.splits)
  then show ?thesis
    by (auto simp add: sync_try_def Response sync_ok_def synced_config_def
        Let_def split: option.splits)
qed

lemma state_eqI:
  fixes a b :: state
  assumes "idb a = idb b" "listData a = listData b" "trackedMedia a = trackedMedia b"
    "sharedDataConfig a = sharedDataConfig b" "isSyncing a = isSyncing b"
    "effects a = effects b"
  shows "a = b"
  using assms by (simp add: state.equality)

lemma sync_cases:
  "sync_failed r \<or> not_modified r \<or> (\<exists>data. complete_snapshot r = Some data)"
  by (cases r) (auto simp: sync_failed_def not_modified_def complete_snapshot_def split: option.splits)

lemma sync_no_attempt:
  "IDB_SHARED_DATA_KEY (idb st) = Some c \<Longrightarrow> sync_target c = [] \<Longrightarrow> syncSharedData e m st = st"
  by (simp add: syncSharedData_def)

lemma sync_finally:
  "\<not> isSyncing st \<Longrightarrow>
   (st \<lparr> isSyncing := True \<rparr>) \<lparr> sharedDataConfig := cfg, idb := s, effects := fx \<rparr>
      \<lparr> isSyncing := False \<rparr>
   = st \<lparr> sharedDataConfig := cfg, idb := s, effects := fx \<rparr>"
  "\<not> isSyncing st \<Longrightarrow>
   (st \<lparr> isSyncing := True \<rparr>) \<lparr> effects := fx \<rparr> \<lparr> isSyncing := False \<rparr>
   = st \<lparr> effects := fx \<rparr>"
  by (auto intro!: state_eqI)

lemma sync_failed_result:
  assumes "sync_attempt st c" and "sync_failed (fetch e (sync_request m c))"
  shows "syncSharedData e m st =
     st \<lparr> sharedDataConfig := disconnected,
          idb := (idb st) \<lparr> IDB_SHARED_DATA_KEY := Some disconnected \<rparr>,
          effects := effects st @
            [Fetch (sync_request m c),
             Toast Destructive ''Sync Failed'' (failure_message (fetch e (sync_request m c)))] \<rparr>"
proof -
  have n: "\<not> isSyncing st" using assms(1) by (simp add: sync_attempt_def)
  show ?thesis
    by (simp add: syncSharedData_attempt [OF assms(1)] sync_try_failed [OF assms(2)]
        sync_finally [OF n])
qed

lemma sync_not_modified_result:
  assumes "sync_attempt st c" and "not_modified (fetch e (sync_request m c))"
  shows "syncSharedData e m st =
     st \<lparr> effects := effects st @
            (if m then [Fetch (sync_request m c), Toast Default ''Already Up-to-Date'' []]
             else [Fetch (sync_request m c)]) \<rparr>"
proof -
  have n: "\<not> isSyncing st" using assms(1) by (simp add: sync_attempt_def)
  show ?thesis
    by (simp add: syncSharedData_attempt [OF assms(1)] sync_try_not_modified [OF assms(2)]
        sync_finally [OF n])
qed

lemma sync_complete_stores:
  assumes "sync_attempt st c" and "complete_snapshot (fetch e (sync_request m c)) = Some data"
  shows "local_stores (syncSharedData e m st) =
           (profile data, lists data,
            (case layout data of None \<Rightarrow> IDB_LAYOUT_CONFIG_KEY (idb st) | Some l \<Rightarrow> Some l),
            (case tracked data of None \<Rightarrow> IDB_TRACKED_MEDIA_KEY (idb st) | Some t \<Rightarrow> Some t))"
  by (simp add: syncSharedData_attempt [OF assms(1)] sync_try_complete [OF assms(2)]
      local_stores_def split: option.splits)

lemma sync_disconnected_noop:
  "IDB_SHARED_DATA_KEY (idb st) = Some disconnected \<Longrightarrow> syncSharedData e m st = st"
  by (simp add: syncSharedData_def disconnected_def sync_target_def)

text \<open>
  Claim C5. A sync attempt whose request gets no response, a status other than 304 and
  outside the \<open>ok\<close> range, an \<open>ok\<close> response whose body does not parse, or an \<open>ok\<close>
  response whose body lacks \<open>profile\<close> or lacks \<open>lists\<close>, ends disconnected: the
  shared-data config, in memory and in the store, has all four fields null, \<open>url\<close>
  included. The profile, lists, layout and tracked stores are untouched, exactly one
  request was made, and any later call of \<open>syncSharedData\<close> does nothing. The four stores
  change only on an \<open>ok\<close> response with both \<open>profile\<close> and \<open>lists\<close>, and then \<open>profile\<close>
  and \<open>lists\<close> replace the stored values whole, as do \<open>layout\<close> and \<open>tracked\<close> when present.
\<close>

theorem failed_sync_disconnects:
  assumes "sync_attempt st c"
  shows "(sync_failed (fetch e (sync_request m c)) \<longrightarrow>
            sharedDataConfig (syncSharedData e m st)
              = \<lparr> url = None, lastSync = None, lastSize = None, lastEtag = None \<rparr>
            \<and> IDB_SHARED_DATA_KEY (idb (syncSharedData e m st))
              = Some \<lparr> url = None, lastSync = None, lastSize = None, lastEtag = None \<rparr>
            \<and> local_stores (syncSharedData e m st) = local_stores st
            \<and> effects (syncSharedData e m st)
              = effects st @
                  [Fetch (sync_request m c),
                   Toast Destructive ''Sync Failed''
                     (failure_message (fetch e (sync_request m c)))]
            \<and> syncSharedData e' m' (syncSharedData e m st) = syncSharedData e m st)
         \<and> (local_stores (syncSharedData e m st) \<noteq> local_stores st \<longrightarrow>
              complete_snapshot (fetch e (sync_request m c)) \<noteq> None)
         \<and> (\<forall>data. complete_snapshot (fetch e (sync_request m c)) = Some data \<longrightarrow>
              local_stores (syncSharedData e m st)
                = (profile data, lists data,
                   (case layout data of None \<Rightarrow> IDB_LAYOUT_CONFIG_KEY (idb st)
                    | Some l \<Rightarrow> Some l),
                   (case tracked data of None \<Rightarrow> IDB_TRACKED_MEDIA_KEY (idb st)
                    | Some t \<Rightarrow> Some t)))"
proof (intro conjI impI allI)
  assume f: "sync_failed (fetch e (sync_request m c))"
  note r = sync_failed_result [OF assms f]
  show "sharedDataConfig (syncSharedData e m st)
          = \<lparr> url = None, lastSync = None, lastSize = None, lastEtag = None \<rparr>"
    by (simp add: r disconnected_def)
  show "IDB_SHARED_DATA_KEY (idb (syncSharedData e m st))
          = Some \<lparr> url = None, lastSync = None, lastSize = None, lastEtag = None \<rparr>"
    by (simp add: r disconnected_def)
  show "local_stores (syncSharedData e m st) = local_stores st"
    by (simp add: r local_stores_def)
  show "effects (syncSharedData e m st)
          = effects st @
              [Fetch (sync_request m c),
               Toast Destructive ''Sync Failed'' (failure_message (fetch e (sync_request m c)))]"
    by (simp add: r)
  have "IDB_SHARED_DATA_KEY (idb (syncSharedData e m st)) = Some disconnected"
    by (simp add: r)
  then show "syncSharedData e' m' (syncSharedData e m st) = syncSharedData e m st"
    by (rule sync_disconnected_noop)
next
  assume ch: "local_stores (syncSharedData e m st) \<noteq> local_stores st"
  show "complete_snapshot (fetch e (sync_request m c)) \<noteq> None"
  proof
    assume none: "complete_snapshot (fetch e (sync_request m c)) = None"
    with sync_cases [of "fetch e (sync_request m c)"]
    consider "sync_failed (fetch e (sync_request m c))"
      | "not_modified (fetch e (sync_request m c))"
      by auto
    then have "local_stores (syncSharedData e m st) = local_stores st"
    proof cases
      case 1
      then show ?thesis by (simp add: sync_failed_result [OF assms] local_stores_def)
    next
      case 2
      then show ?thesis by (simp add: sync_not_modified_result [OF assms] local_stores_def)
    qed
    with ch show False by simp
  qed
next
  fix data
  assume "complete_snapshot (fetch e (sync_request m c)) = Some data"
  then show "local_stores (syncSharedData e m st)
                = (profile data, lists data,
                   (case layout data of None \<Rightarrow> IDB_LAYOUT_CONFIG_KEY (idb st)
                    | Some l \<Rightarrow> Some l),
                   (case tracked data of None \<Rightarrow> IDB_TRACKED_MEDIA_KEY (idb st)
                    | Some t \<Rightarrow> Some t))"
    by (rule sync_complete_stores [OF assms])
qed

lemma sync_state_facts:
  "sync_attempt sync_state example_config"
  "lastEtag example_config = Some ''v1''"
  "effects sync_state = []"
  "sync_request False example_config
     = \<lparr> target = ''https://example.org/data.json'', headers = [(''If-None-Match'', ''v1'')] \<rparr>"
  "sync_request True example_config
     = \<lparr> target = ''https://example.org/data.json'', headers = [] \<rparr>"
  by (simp_all add: sync_attempt_def sync_state_def example_state_def example_store_def
      example_config_def sync_target_def sync_request_def sync_headers_def)

theorem failed_sync_disconnects_witness:
  "sync_attempt sync_state example_config
   \<and> sync_failed (fetch malformed_env (sync_request False example_config))
   \<and> url (sharedDataConfig (syncSharedData malformed_env False sync_state)) = None
   \<and> effects (syncSharedData malformed_env False sync_state)
       = [Fetch (sync_request False example_config),
          Toast Destructive ''Sync Failed'' ''Invalid data structure.'']"
proof -
  have f: "sync_failed (fetch malformed_env (sync_request False example_config))"
    "failure_message (fetch malformed_env (sync_request False example_config))
       = ''Invalid data structure.''"
    by (simp_all add: malformed_env_def example_env_def sync_failed_def failure_message_def
        response_ok_def)
  show ?thesis
    using f sync_state_facts(1,3)
      failed_sync_disconnects [OF sync_state_facts(1), of malformed_env False]
    by simp
qed

text \<open>
  Claim C6. With a stored ETag, a non-manual sync sends it as \<open>If-None-Match\<close>, and on a
  304 response it changes nothing but the trace of the request: store, list data and
  profile stay as they are and no reload is scheduled. A manual sync sends no
  \<open>If-None-Match\<close> header, and on a 304 response it shows the notice "Already Up-to-Date"
  and changes nothing else.
\<close>

theorem not_modified_sync_noop:
  assumes "sync_attempt st c" and "lastEtag c = Some tag" and "tag \<noteq> []"
  shows "headers (sync_request False c) = [(''If-None-Match'', tag)]
         \<and> headers (sync_request True c) = []
         \<and> (not_modified (fetch e (sync_request False c)) \<longrightarrow>
              syncSharedData e False st
                = st \<lparr> effects := effects st @ [Fetch (sync_request False c)] \<rparr>)
         \<and> (not_modified (fetch e (sync_request True c)) \<longrightarrow>
              syncSharedData e True st
                = st \<lparr> effects := effects st @
                         [Fetch (sync_request True c),
                          Toast Default ''Already Up-to-Date'' []] \<rparr>)"
  using assms(2,3)
  by (simp add: sync_request_def sync_headers_def sync_not_modified_result [OF assms(1)])

theorem not_modified_sync_noop_witness:
  "sync_attempt sync_state example_config
   \<and> not_modified (fetch not_modified_env (sync_request False example_config))
   \<and> idb (syncSharedData not_modified_env False sync_state) = idb sync_state
   \<and> listData (syncSharedData not_modified_env False sync_state) = listData sync_state
   \<and> effects (syncSharedData not_modified_env False sync_state)
       = [Fetch \<lparr> target = ''https://example.org/data.json'',
                  headers = [(''If-None-Match'', ''v1'')] \<rparr>]
   \<and> effects (syncSharedData not_modified_env True sync_state)
       = [Fetch \<lparr> target = ''https://example.org/data.json'', headers = [] \<rparr>,
          Toast Default ''Already Up-to-Date'' []]"
proof -
  have n: "not_modified (fetch not_modified_env r)" for r
    by (simp add: not_modified_env_def example_env_def not_modified_def)
  have t: "(''v1'' :: string) \<noteq> []" by simp
  show ?thesis
    using n sync_state_facts
      not_modified_sync_noop [OF sync_state_facts(1,2) t, of not_modified_env]
    by simp
qed

section \<open>Tracked media after a toggle\<close>

lemma get_tracked_set_tracked: "get_tracked (set_tracked xs st) = xs"
  by (simp add: get_tracked_def set_tracked_def)

lemma reconcile_timer_tracked:
  "get_tracked (reconcile_timer e m st) =
     (if isInAnyList (freshListData e st) (id_anime m)
      then (if list_ex (\<lambda>item. id_anime item = id_anime m) (get_tracked st)
            then get_tracked st
            else get_tracked st @ [m \<lparr> synopsis := None \<rparr>])
      else filter (\<lambda>item. id_anime item \<noteq> id_anime m) (get_tracked st))"
  by (simp add: reconcile_timer_def freshListData_def Let_def get_tracked_set_tracked)

lemma reconcile_timer_membership:
  "id_anime m \<in> id_anime ` set (get_tracked (reconcile_timer e m st))
   \<longleftrightarrow> isInAnyList (freshListData e st) (id_anime m)"
proof (cases "isInAnyList (freshListData e st) (id_anime m)")
  case True
  have "id_anime m \<in> id_anime ` set (get_tracked (reconcile_timer e m st))"
  proof (cases "list_ex (\<lambda>item. id_anime item = id_anime m) (get_tracked st)")
    case present: True
    then obtain item where "item \<in> set (get_tracked st)" "id_anime item = id_anime m"
      by (auto simp: list_ex_iff)
    then have "id_anime m \<in> id_anime ` set (get_tracked st)"
      by (metis imageI)
    with True present show ?thesis
      by (simp add: reconcile_timer_tracked)
  next
    case absent: False
    with True show ?thesis
      by (simp add: reconcile_timer_tracked)
  qed
  with True show ?thesis by simp
next
  case False
  then show ?thesis
    by (auto simp: reconcile_timer_tracked)
qed

lemma reconcile_timer_list_data:
  "IDB_LIST_DATA_KEY (idb (reconcile_timer e m st)) = IDB_LIST_DATA_KEY (idb st)"
  by (simp add: reconcile_timer_def set_tracked_def Let_def)

lemma handleToggle_reconciled:
  "id_anime m \<in> id_anime ` set (get_tracked
      (reconcile_timer e' m (handleToggleListMembership e m l st)))
   \<longleftrightarrow> isInAnyList (freshListData e'
      (reconcile_timer e' m (handleToggleListMembership e m l st))) (id_anime m)"
  by (simp add: reconcile_timer_membership freshListData_def reconcile_timer_list_data)

text \<open>
  Claim C2, evaluated on the code. The callback of \<open>handleToggleListMembership\<close> leaves
  the toggled item tracked exactly when the stored list data has it in one of the four
  lists (\<open>handleToggle_reconciled\<close>). The callback of \<open>toggleCurrentlyWatching\<close> only
  adds: item 5, tracked and in \<open>currentlyWatching\<close> alone, is in none of the four lists
  after the toggle and is still in the tracked cache, in the store and in memory.
\<close>

theorem currently_watching_leaves_tracked:
  "5 \<in> set (currentlyWatching (listData watching_state))
   \<and> \<not> isInAnyList
        (freshListData example_env
          (track_timer example_anime
            (toggleCurrentlyWatching example_env example_anime watching_state))) 5
   \<and> \<not> isInAnyList
        (listData (track_timer example_anime
            (toggleCurrentlyWatching example_env example_anime watching_state))) 5
   \<and> 5 \<in> id_anime ` set (get_tracked
        (track_timer example_anime
          (toggleCurrentlyWatching example_env example_anime watching_state)))
   \<and> 5 \<in> id_anime ` set (trackedMedia
        (track_timer example_anime
          (toggleCurrentlyWatching example_env example_anime watching_state)))"
proof -
  have q: "\<not> quota_exceeded example_env d" if "storageQuota d = 1000" for d
    using that by (simp add: quota_exceeded_def example_env_def)
  have i: "id_anime example_anime = 5"
    by (simp add: example_anime_def)
  have u: "currently_watching_update 5 watching_data
      = watching_data \<lparr> currentlyWatching := [] \<rparr>"
    by (simp add: currently_watching_update_def watching_data_def example_data_def)
  have sq: "storageQuota (watching_data \<lparr> currentlyWatching := [] \<rparr>) = 1000"
    by (simp add: watching_data_def example_data_def)
  have l: "listData watching_state = watching_data"
    by (simp add: watching_state_def)
  have t: "listData (toggleCurrentlyWatching example_env example_anime watching_state)
      = watching_data \<lparr> currentlyWatching := [] \<rparr>"
    "IDB_LIST_DATA_KEY (idb (toggleCurrentlyWatching example_env example_anime watching_state))
      = Some (watching_data \<lparr> currentlyWatching := [] \<rparr>)"
    "IDB_TRACKED_MEDIA_KEY (idb (toggleCurrentlyWatching example_env example_anime watching_state))
      = Some [example_anime \<lparr> synopsis := None \<rparr>]"
    "trackedMedia (toggleCurrentlyWatching example_env example_anime watching_state)
      = [example_anime \<lparr> synopsis := None \<rparr>]"
    by (simp_all add: toggleCurrentlyWatching_def updateAndPersistListData_listData
        updateAndPersistListData_persisted updateAndPersistListData_frame i l u q [OF sq]
        watching_state_def example_state_def example_store_def)
  have k: "track_timer example_anime
          (toggleCurrentlyWatching example_env example_anime watching_state)
        = toggleCurrentlyWatching example_env example_anime watching_state"
    by (simp add: track_timer_def get_tracked_def t i)
  have n: "\<not> isInAnyList (watching_data \<lparr> currentlyWatching := [] \<rparr>) 5"
    by (simp add: isInAnyList_def watching_data_def example_data_def)
  show ?thesis
    using n by (simp add: k t freshListData_def get_tracked_def i l watching_data_def example_data_def)
qed

end
